theory Spec2Isabelle
  imports Complex_Main "HOL-Library.Sublist"
begin

section \<open>Strings\<close>

text \<open>
  A Python \<open>str\<close> is modelled as a \<open>string\<close> whose characters are ASCII code points.
  \<open>lower\<close> is \<open>str.lower()\<close> on that range, \<open>py_in sub s\<close> is the substring test
  \<open>sub in s\<close>, \<open>join sep xs\<close> is \<open>sep.join(xs)\<close>, \<open>split_on c s\<close> is \<open>s.split(c)\<close> for a
  one-character separator.
\<close>

definition lower_char :: "char \<Rightarrow> char" where
  "lower_char c =
     (case map_of (zip ''ABCDEFGHIJKLMNOPQRSTUVWXYZ'' ''abcdefghijklmnopqrstuvwxyz'') c of
        None \<Rightarrow> c
      | Some d \<Rightarrow> d)"

definition lower :: "string \<Rightarrow> string" where
  "lower s = map lower_char s"

fun starts_with :: "string \<Rightarrow> string \<Rightarrow> bool" where
  "starts_with s [] = True"
| "starts_with [] (c # cs) = False"
| "starts_with (d # ds) (c # cs) = (d = c \<and> starts_with ds cs)"

fun py_in :: "string \<Rightarrow> string \<Rightarrow> bool" where
  "py_in sub [] = (sub = [])"
| "py_in sub (c # cs) = (starts_with (c # cs) sub \<or> py_in sub cs)"

fun join :: "string \<Rightarrow> string list \<Rightarrow> string" where
  "join sep [] = []"
| "join sep [x] = x"
| "join sep (x # y # ys) = x @ sep @ join sep (y # ys)"

fun split_on :: "char \<Rightarrow> string \<Rightarrow> string list" where
  "split_on c [] = [[]]"
| "split_on c (x # xs) =
     (if x = c then [] # split_on c xs
      else (case split_on c xs of [] \<Rightarrow> [[x]] | w # ws \<Rightarrow> (x # w) # ws))"

definition digit_char :: "nat \<Rightarrow> char" where
  "digit_char d = ''0123456789'' ! (d mod 10)"

fun str_nat :: "nat \<Rightarrow> string" where
  "str_nat n = (if n < 10 then [digit_char n] else str_nat (n div 10) @ [digit_char n])"

declare str_nat.simps [simp del]

definition str_int :: "int \<Rightarrow> string" where
  "str_int i = (if i < 0 then ''-'' @ str_nat (nat (- i)) else str_nat (nat i))"

text \<open>\<open>str(t)\<close> of a tuple of integers, as an f-string prints it.\<close>

fun repr_tuple :: "int list \<Rightarrow> string" where
  "repr_tuple [] = ''()''"
| "repr_tuple [x] = ''('' @ str_int x @ '',)''"
| "repr_tuple xs = ''('' @ join '', '' (map str_int xs) @ '')''"

declare repr_tuple.simps [simp del]

section \<open>Tensors, checkpoints and documents\<close>

datatype dtype =
  Float16 | BFloat16 | Float32 | Float64
| Int8 | Int16 | Int32 | Int64 | UInt8 | Bool | Complex64 | Complex128

fun dtype_str :: "dtype \<Rightarrow> string" where
  "dtype_str Float16 = ''torch.float16''"
| "dtype_str BFloat16 = ''torch.bfloat16''"
| "dtype_str Float32 = ''torch.float32''"
| "dtype_str Float64 = ''torch.float64''"
| "dtype_str Int8 = ''torch.int8''"
| "dtype_str Int16 = ''torch.int16''"
| "dtype_str Int32 = ''torch.int32''"
| "dtype_str Int64 = ''torch.int64''"
| "dtype_str UInt8 = ''torch.uint8''"
| "dtype_str Bool = ''torch.bool''"
| "dtype_str Complex64 = ''torch.complex64''"
| "dtype_str Complex128 = ''torch.complex128''"

text \<open>
  A tensor is its shape and its element type; the conversion never reads the elements.
  \<open>to_float\<close> is \<open>tensor.float()\<close>, \<open>contiguous\<close> is \<open>tensor.contiguous()\<close>, \<open>numel\<close> is
  \<open>tensor.numel()\<close>.
\<close>

datatype tensor = Tensor (t_shape: "nat list") (t_dtype: dtype)

definition to_float :: "tensor \<Rightarrow> tensor" where
  "to_float t = Tensor (t_shape t) Float32"

definition contiguous :: "tensor \<Rightarrow> tensor" where
  "contiguous t = t"

definition numel :: "tensor \<Rightarrow> nat" where
  "numel t = prod_list (t_shape t)"

text \<open>
  What \<open>torch.load\<close> can return: \<open>None\<close>, a tensor, a \<open>dict\<close> (string keys, in insertion
  order) or any other object. Another object carries its type name, what \<open>obj.eval()\<close>
  raises (\<open>None\<close> when it returns), and its \<open>state_dict\<close> attribute: absent, or present and
  then either raising or returning a value when called. Objects other than \<open>dict\<close> have no
  \<open>items\<close> method.
\<close>

datatype pyval =
  PNone
| PTensor tensor
| PDict "(string \<times> pyval) list"
| PObj string "string option" "(string + pyval) option"

fun is_tensor :: "pyval \<Rightarrow> bool" where
  "is_tensor (PTensor t) = True"
| "is_tensor v = False"

fun type_name :: "pyval \<Rightarrow> string" where
  "type_name PNone = ''NoneType''"
| "type_name (PTensor t) = ''Tensor''"
| "type_name (PDict kvs) = ''dict''"
| "type_name (PObj n e s) = n"

definition attribute_error :: "pyval \<Rightarrow> string \<Rightarrow> string" where
  "attribute_error v a =
     [CHR 0x27] @ type_name v @ [CHR 0x27] @ '' object has no attribute ''
       @ [CHR 0x27] @ a @ [CHR 0x27]"

text \<open>\<open>model.eval()\<close>: the message of the exception it raises, if any.\<close>

fun py_eval :: "pyval \<Rightarrow> string option" where
  "py_eval (PObj n e s) = e"
| "py_eval v = Some (attribute_error v ''eval'')"

text \<open>\<open>hasattr(v, "state_dict")\<close> and \<open>v.state_dict()\<close>.\<close>

fun has_state_dict :: "pyval \<Rightarrow> bool" where
  "has_state_dict (PObj n e (Some r)) = True"
| "has_state_dict v = False"

fun call_state_dict :: "pyval \<Rightarrow> string + pyval" where
  "call_state_dict (PObj n e (Some r)) = r"
| "call_state_dict v = Inl (attribute_error v ''state_dict'')"

text \<open>\<open>tensors[key] = tensor\<close> on an insertion-ordered dict.\<close>

fun dict_set :: "(string \<times> 'a) list \<Rightarrow> string \<Rightarrow> 'a \<Rightarrow> (string \<times> 'a) list" where
  "dict_set [] k v = [(k, v)]"
| "dict_set (p # ps) k v = (if fst p = k then (k, v) # ps else p # dict_set ps k v)"

datatype json = JStr string | JInt int | JList "json list" | JObj "(string \<times> json) list"

fun field :: "json \<Rightarrow> string \<Rightarrow> json option" where
  "field (JObj kvs) k = map_of kvs k"
| "field j k = None"

datatype graph = Traced pyval | Scripted pyval

section \<open>Events and effects\<close>

text \<open>
  One event is one JSON line on stdout. The \<open>percent\<close> literals \<open>0.1\<close>, ..., \<open>1.0\<close> of the
  source are modelled as the rationals they denote; rounding a literal to a float is
  monotone and keeps 0 and 1, so order and bounds are those of the rationals.
\<close>

datatype event =
  Log string string
| Progress rat string
| Completed string string json
| Error string string

text \<open>
  Everything a run does to the outside, in order: the events it prints, the tensor archive
  and the sidecar document it writes, the package it saves.
\<close>

datatype effect =
  Emit event
| SaveFile "(string \<times> tensor) list" string
| DumpJson json
| SavePackage string string string

text \<open>
  How a call ends: it returns, raises an \<open>Exception\<close> with a message, or calls
  \<open>sys.exit\<close> (a \<open>SystemExit\<close>, which \<open>except Exception\<close> does not catch).
\<close>

datatype 'a outcome = Return 'a | Raise string | Exit nat

definition emit :: "event \<Rightarrow> effect list" where
  "emit e = [Emit e]"

definition log_event :: "string \<Rightarrow> string \<Rightarrow> effect list" where
  "log_event level message = emit (Log level message)"

definition progress :: "rat \<Rightarrow> string \<Rightarrow> effect list" where
  "progress percent step = emit (Progress percent step)"

definition completed :: "string \<Rightarrow> string \<Rightarrow> json \<Rightarrow> effect list" where
  "completed output_path format metadata = emit (Completed output_path format metadata)"

definition error :: "string \<Rightarrow> string \<Rightarrow> effect list" where
  "error message code = emit (Error message code)"

section \<open>The world outside the script\<close>

text \<open>
  The libraries the script calls are not part of it; a run is determined by what they
  answer. \<open>py_int\<close> is the builtin \<open>int\<close> on one token (\<open>Inl\<close> the message of its
  \<open>ValueError\<close>). \<open>torch_load path weights_only\<close> is \<open>torch.load\<close>. \<open>jit_trace\<close> stands for
  \<open>torch.randn(*input_shape)\<close> followed by \<open>torch.jit.trace\<close>, \<open>jit_script\<close> for
  \<open>torch.jit.script\<close>; \<open>ct_input\<close> for building the input descriptor, \<open>ct_convert\<close> for
  \<open>ct.convert\<close>, \<open>mlmodel_save\<close> for \<open>mlmodel.save\<close>; \<open>save_file\<close> for the safetensors
  writer and \<open>dump_metadata\<close> for computing the sidecar path, opening it and
  \<open>json.dump\<close>; \<open>path_str\<close> is \<open>str(Path(p))\<close>. A \<open>string option\<close> answer is the message of the exception raised, \<open>None\<close>
  when the call succeeds. An interrupt from the keyboard is asynchronous and is not part
  of the model.
\<close>

datatype color_layout = RGB | GRAYSCALE

datatype input_type = ImageType "int list" color_layout | TensorType "int list"

record env =
  py_int :: "string \<Rightarrow> string + int"
  import_torch :: "string option"
  torch_load :: "string \<Rightarrow> bool \<Rightarrow> string + pyval"
  jit_trace :: "pyval \<Rightarrow> int list \<Rightarrow> string option"
  jit_script :: "pyval \<Rightarrow> string option"
  has_coremltools :: bool
  ct_input :: "input_type \<Rightarrow> string option"
  ct_convert :: "graph \<Rightarrow> input_type \<Rightarrow> string option"
  mlmodel_save :: "string \<Rightarrow> string option"
  has_safetensors :: bool
  save_file :: "(string \<times> tensor) list \<Rightarrow> string \<Rightarrow> string option"
  dump_metadata :: "string \<Rightarrow> json \<Rightarrow> string option"
  path_str :: "string \<Rightarrow> string"

datatype target = CoreML | MLX

fun target_str :: "target \<Rightarrow> string" where
  "target_str CoreML = ''coreml''"
| "target_str MLX = ''mlx''"

text \<open>The parsed command line; \<open>argparse\<close> admits no other \<open>--format\<close> than the two.\<close>

record args =
  arg_input :: string
  arg_output :: string
  arg_format :: target
  arg_input_shape :: string
  arg_name :: string

section \<open>\<open>load_pytorch_model\<close>\<close>

text \<open>
  Lines 59 to 84: the two variables \<open>model\<close> and \<open>state_dict\<close> after the inspection of
  the checkpoint (\<open>PNone\<close> is Python's \<open>None\<close>), and the log lines printed on the way.
\<close>

definition classify :: "pyval \<Rightarrow> pyval \<times> pyval \<times> effect list" where
  "classify checkpoint =
     (case checkpoint of
        PDict kvs \<Rightarrow>
          (case map_of kvs ''model'' of
             Some m \<Rightarrow> (m, PNone, log_event ''info'' ''Found 'model' key in checkpoint'')
           | None \<Rightarrow>
               (case map_of kvs ''state_dict'' of
                  Some sd \<Rightarrow>
                    (PNone, sd, log_event ''info'' ''Found 'state_dict' key (model class required)'')
                | None \<Rightarrow>
                    (case map_of kvs ''model_state_dict'' of
                       Some sd \<Rightarrow>
                         (PNone, sd,
                          log_event ''info'' ''Found 'model_state_dict' key (model class required)'')
                     | None \<Rightarrow>
                         if list_all is_tensor (map snd kvs)
                         then (PNone, checkpoint,
                               log_event ''info'' ''Checkpoint appears to be a state_dict'')
                         else (checkpoint, PNone, []))))
      | _ \<Rightarrow> (checkpoint, PNone, []))"

text \<open>
  Lines 95 to 123, entered with a \<open>model\<close> that is not \<open>None\<close>: inference mode, then
  tracing, scripting and the model's own weights, each tried when the one before failed.
\<close>

definition materialize ::
  "env \<Rightarrow> pyval \<Rightarrow> int list \<Rightarrow> pyval \<Rightarrow> effect list \<times> (graph option \<times> pyval \<times> pyval) outcome"
where
  "materialize E model input_shape checkpoint =
     (case py_eval model of
        Some e \<Rightarrow> ([], Raise e)
      | None \<Rightarrow>
          (let ev = log_event ''info'' (''Tracing model with input shape: '' @ repr_tuple input_shape)
                    @ progress (4 / 10) ''Tracing model''
           in case jit_trace E model input_shape of
                None \<Rightarrow>
                  (ev @ log_event ''info'' ''Model traced successfully'',
                   Return (Some (Traced model), PNone, checkpoint))
              | Some e \<Rightarrow>
                  (let ev2 = ev @ log_event ''warning'' (''Tracing failed: '' @ e)
                                @ log_event ''info'' ''Attempting scripting instead...''
                   in case jit_script E model of
                        None \<Rightarrow>
                          (ev2 @ log_event ''info'' ''Model scripted successfully'',
                           Return (Some (Scripted model), PNone, checkpoint))
                      | Some e2 \<Rightarrow>
                          (let ev3 = ev2 @ log_event ''warning'' (''Scripting also failed: '' @ e2)
                           in if has_state_dict model
                              then (case call_state_dict model of
                                      Inl e3 \<Rightarrow> (ev3, Raise e3)
                                    | Inr sd \<Rightarrow>
                                        (ev3 @ log_event ''info'' ''Extracted state_dict from model'',
                                         Return (None, sd, checkpoint)))
                              else (ev3, Raise (''Cannot process model: '' @ e))))))"

definition load_pytorch_model ::
  "env \<Rightarrow> string \<Rightarrow> int list \<Rightarrow> effect list \<times> (graph option \<times> pyval \<times> pyval) outcome"
where
  "load_pytorch_model E model_path input_shape =
     (case import_torch E of
        Some e \<Rightarrow> ([], Raise e)
      | None \<Rightarrow>
          (let ev0 = log_event ''info'' (''Loading PyTorch model from '' @ model_path)
                     @ progress (1 / 10) ''Loading model''
           in case (case torch_load E model_path False of
                      Inr c \<Rightarrow> Inr c
                    | Inl e \<Rightarrow>
                        (case torch_load E model_path True of
                           Inr c \<Rightarrow> Inr c
                         | Inl e' \<Rightarrow> Inl (''Failed to load model: '' @ e))) of
                Inl msg \<Rightarrow> (ev0, Raise msg)
              | Inr checkpoint \<Rightarrow>
                  (case classify checkpoint of
                     (model, state_dict, found) \<Rightarrow>
                       (let ev3 = ev0 @ progress (2 / 10) ''Analyzing checkpoint'' @ found
                                  @ progress (3 / 10) ''Preparing model''
                        in if model = PNone \<and> state_dict \<noteq> PNone
                           then (ev3 @ log_event ''warning''
                                         ''Checkpoint contains only weights (state_dict)''
                                     @ log_event ''info''
                                         ''MLX conversion will proceed with raw weights'',
                                 Return (None, state_dict, checkpoint))
                           else if model \<noteq> PNone
                           then (case materialize E model input_shape checkpoint of
                                   (ev, r) \<Rightarrow> (ev3 @ ev, r))
                           else (ev3,
                                 Raise ''Could not extract model or state_dict from checkpoint'')))))"

section \<open>\<open>infer_architecture\<close>\<close>

text \<open>One entry of \<open>layer_info\<close>: the dict with keys \<open>name\<close>, \<open>shape\<close> and \<open>dtype\<close>.\<close>

record layer =
  layer_name :: string
  layer_shape :: "nat list"
  layer_dtype :: string

definition layer_json :: "layer \<Rightarrow> json" where
  "layer_json l =
     JObj [(''name'', JStr (layer_name l)),
           (''shape'', JList (map (\<lambda>d. JInt (int d)) (layer_shape l))),
           (''dtype'', JStr (layer_dtype l))]"

text \<open>
  The two nested \<open>if\<close>s of the ResNet test have no \<open>else\<close>, so they are one
  conjunction; \<open>any\<close> and \<open>all\<close> over the names are \<open>list_ex\<close> and \<open>list_all\<close>.
\<close>

definition infer_architecture :: "layer list \<Rightarrow> string" where
  "infer_architecture layer_info =
     (let layer_names = map (\<lambda>l. lower (layer_name l)) layer_info;
          layer_names_str = join '' '' layer_names
      in if (py_in ''resnet'' layer_names_str
             \<or> list_ex (\<lambda>n. py_in ''layer'' n \<and> py_in ''conv'' n) layer_names)
            \<and> list_ex (\<lambda>n. py_in ''downsample'' n \<or> py_in ''shortcut'' n) layer_names
         then ''ResNet''
         else if list_ex (\<lambda>n. py_in ''conv'' n) layer_names
         then (if list_ex (\<lambda>n. py_in ''bn'' n \<or> py_in ''batch'' n) layer_names
               then ''CNN'' else ''CNN'')
         else if list_ex (\<lambda>n. py_in ''attention'' n \<or> py_in ''transformer'' n
                                \<or> py_in ''encoder'' n) layer_names
         then ''Transformer''
         else if list_ex (\<lambda>n. py_in ''vit'' n \<or> py_in ''patch_embed'' n) layer_names
         then ''Transformer''
         else if list_all (\<lambda>n. py_in ''fc'' n \<or> py_in ''linear'' n
                                 \<or> py_in ''weight'' n \<or> py_in ''bias'' n) layer_names
         then ''MLP''
         else if list_ex (\<lambda>n. py_in ''yolo'' n \<or> py_in ''detect'' n) layer_names
         then ''YOLOv8''
         else ''Custom'')"

section \<open>\<open>convert_to_coreml\<close>\<close>

text \<open>Lines 193 to 200: the error event for an exception of the compiler or of the save.\<close>

definition compiler_error :: "string \<Rightarrow> effect list" where
  "compiler_error error_msg =
     (if py_in ''not supported'' (lower error_msg)
      then error (''Model contains unsupported operations: '' @ error_msg) ''UNSUPPORTED_OP''
      else if py_in ''shape'' (lower error_msg)
      then error (''Shape mismatch during conversion: '' @ error_msg) ''SHAPE_MISMATCH''
      else error (''CoreML conversion failed: '' @ error_msg) ''CONVERSION_FAILED'')"

text \<open>Lines 140 to 156: the input descriptor and the log line that goes with it.\<close>

definition choose_input :: "int list \<Rightarrow> input_type \<times> string" where
  "choose_input input_shape =
     (case input_shape of
        [b, channels, height, width] \<Rightarrow>
          if channels \<in> {1, 3, 4}
          then (ImageType input_shape (if channels = 3 then RGB else GRAYSCALE),
                ''Using ImageType input: '' @ str_int channels @ ''ch '' @ str_int height
                  @ ''x'' @ str_int width)
          else (TensorType input_shape, ''Using TensorType input: '' @ repr_tuple input_shape)
      | _ \<Rightarrow> (TensorType input_shape, ''Using TensorType input: '' @ repr_tuple input_shape))"

definition coreml_metadata :: "int list \<Rightarrow> json" where
  "coreml_metadata input_shape =
     JObj [(''inputShape'', JList (map JInt input_shape)),
           (''format'', JStr ''coreml''),
           (''computeUnits'', JStr ''all''),
           (''deploymentTarget'', JStr ''macOS14'')]"

definition convert_to_coreml ::
  "env \<Rightarrow> graph \<Rightarrow> int list \<Rightarrow> string \<Rightarrow> string \<Rightarrow> effect list \<times> json outcome"
where
  "convert_to_coreml E traced_model input_shape output_path model_name =
     (if \<not> has_coremltools E
      then (error ''coremltools not installed. Run: pip install coremltools'' ''MISSING_PACKAGE'',
            Exit 1)
      else
        (let ev0 = log_event ''info'' ''Converting to CoreML format''
                   @ progress (5 / 10) ''Converting to CoreML''
         in case choose_input input_shape of
              (input_type, said) \<Rightarrow>
                (case ct_input E input_type of
                   Some e \<Rightarrow> (ev0, Raise e)
                 | None \<Rightarrow>
                     (let ev1 = ev0 @ log_event ''info'' said
                                @ progress (6 / 10) ''Running coremltools conversion''
                      in case ct_convert E traced_model input_type of
                           Some e \<Rightarrow> (ev1 @ compiler_error e, Exit 1)
                         | None \<Rightarrow>
                             (let ev2 = ev1 @ progress (8 / 10) ''Optimizing model''
                                        @ progress (9 / 10) ''Saving model''
                                        @ log_event ''info''
                                            (''Saving CoreML model to '' @ output_path)
                              in case mlmodel_save E output_path of
                                   Some e \<Rightarrow> (ev2 @ compiler_error e, Exit 1)
                                 | None \<Rightarrow>
                                     (ev2 @ [SavePackage output_path ''Performant3''
                                               (''Converted from PyTorch: '' @ model_name)]
                                          @ progress 1 ''Complete'',
                                      Return (coreml_metadata input_shape)))))))"

section \<open>\<open>convert_to_mlx\<close>\<close>

text \<open>
  Lines 217 to 232: the weights to convert, taken from the checkpoint when the loader
  returned none. \<open>checkpoint.get("model")\<close> is \<open>None\<close> when the key is absent.
\<close>

definition extract_state_dict :: "pyval \<Rightarrow> pyval \<Rightarrow> effect list \<times> pyval outcome" where
  "extract_state_dict state_dict checkpoint =
     (if state_dict \<noteq> PNone then ([], Return state_dict)
      else
        (case checkpoint of
           PDict kvs \<Rightarrow>
             (case map_of kvs ''state_dict'' of
                Some sd \<Rightarrow> ([], Return sd)
              | None \<Rightarrow>
                  (case map_of kvs ''model_state_dict'' of
                     Some sd \<Rightarrow> ([], Return sd)
                   | None \<Rightarrow>
                       (let m = (case map_of kvs ''model'' of Some v \<Rightarrow> v | None \<Rightarrow> PNone)
                        in if has_state_dict m
                           then (case call_state_dict m of
                                   Inl e \<Rightarrow> ([], Raise e)
                                 | Inr sd \<Rightarrow> ([], Return sd))
                           else ([], Return (PDict (filter (\<lambda>(k, v). is_tensor v) kvs))))))
         | _ \<Rightarrow>
             if has_state_dict checkpoint
             then (case call_state_dict checkpoint of
                     Inl e \<Rightarrow> ([], Raise e)
                   | Inr sd \<Rightarrow> ([], Return sd))
             else (error ''Cannot extract state_dict from checkpoint'' ''INVALID_CHECKPOINT'',
                   Exit 1)))"

text \<open>
  Lines 240 to 258: the loop over \<open>state_dict.items()\<close>, with the dict \<open>tensors\<close> and the
  list \<open>layer_info\<close> it fills.
\<close>

fun process_tensors ::
  "(string \<times> pyval) list \<Rightarrow> (string \<times> tensor) list \<Rightarrow> layer list
     \<Rightarrow> (string \<times> tensor) list \<times> layer list"
where
  "process_tensors [] tensors layer_info = (tensors, layer_info)"
| "process_tensors ((key, v) # rest) tensors layer_info =
     (case v of
        PTensor t \<Rightarrow>
          (let t1 = (if t_dtype t \<in> {Float16, BFloat16} then to_float t else t);
               t2 = contiguous t1
           in process_tensors rest (dict_set tensors key t2)
                (layer_info @ [\<lparr>layer_name = key, layer_shape = t_shape t2,
                                layer_dtype = dtype_str (t_dtype t2)\<rparr>]))
      | _ \<Rightarrow> process_tensors rest tensors layer_info)"

definition mlx_sidecar :: "int list \<Rightarrow> (string \<times> tensor) list \<Rightarrow> layer list \<Rightarrow> json" where
  "mlx_sidecar input_shape tensors layer_info =
     JObj [(''inputShape'', JList (map JInt input_shape)),
           (''format'', JStr ''mlx''),
           (''layerCount'', JInt (int (length layer_info))),
           (''layers'', JList (map layer_json layer_info)),
           (''architectureType'', JStr (infer_architecture layer_info)),
           (''totalParameters'', JInt (int (sum_list (map (\<lambda>(k, t). numel t) tensors))))]"

definition mlx_metadata :: "int list \<Rightarrow> (string \<times> tensor) list \<Rightarrow> layer list \<Rightarrow> json" where
  "mlx_metadata input_shape tensors layer_info =
     JObj [(''inputShape'', JList (map JInt input_shape)),
           (''format'', JStr ''mlx''),
           (''architectureType'', JStr (infer_architecture layer_info)),
           (''layerCount'', JInt (int (length layer_info))),
           (''totalParameters'', JInt (int (sum_list (map (\<lambda>(k, t). numel t) tensors))))]"

definition convert_to_mlx ::
  "env \<Rightarrow> pyval \<Rightarrow> int list \<Rightarrow> string \<Rightarrow> pyval \<Rightarrow> effect list \<times> json outcome"
where
  "convert_to_mlx E state_dict input_shape output_path checkpoint =
     (if \<not> has_safetensors E
      then (error ''safetensors not installed. Run: pip install safetensors'' ''MISSING_PACKAGE'',
            Exit 1)
      else
        (let ev0 = log_event ''info'' ''Converting to MLX safetensors format''
                   @ progress (5 / 10) ''Extracting weights''
         in case extract_state_dict state_dict checkpoint of
              (ev, Raise e) \<Rightarrow> (ev0 @ ev, Raise e)
            | (ev, Exit n) \<Rightarrow> (ev0 @ ev, Exit n)
            | (ev, Return sd) \<Rightarrow>
                (let ev1 = ev0 @ ev @ progress (6 / 10) ''Processing tensors''
                 in case sd of
                      PDict items \<Rightarrow>
                        (case process_tensors items [] [] of
                           (tensors, layer_info) \<Rightarrow>
                             (let ev2 = ev1 @ progress (8 / 10) ''Saving safetensors''
                                        @ log_event ''info''
                                            (''Saving MLX model to '' @ path_str E output_path)
                              in case save_file E tensors output_path of
                                   Some e \<Rightarrow> (ev2, Raise e)
                                 | None \<Rightarrow>
                                     (let ev3 = ev2 @ [SaveFile tensors output_path]
                                                @ progress (9 / 10) ''Saving metadata'';
                                          metadata = mlx_sidecar input_shape tensors layer_info
                                      in case dump_metadata E output_path metadata of
                                           Some e \<Rightarrow> (ev3, Raise e)
                                         | None \<Rightarrow>
                                             (ev3 @ [DumpJson metadata] @ progress 1 ''Complete'',
                                              Return (mlx_metadata input_shape tensors
                                                        layer_info)))))
                    | _ \<Rightarrow> (ev1, Raise (attribute_error sd ''items'')))))"

section \<open>\<open>main\<close>\<close>

text \<open>\<open>tuple(map(int, s.split(",")))\<close>: the first token \<open>int\<close> rejects raises.\<close>

fun int_all :: "(string \<Rightarrow> string + int) \<Rightarrow> string list \<Rightarrow> string + int list" where
  "int_all f [] = Inr []"
| "int_all f (w # ws) =
     (case f w of
        Inl e \<Rightarrow> Inl e
      | Inr i \<Rightarrow> (case int_all f ws of Inl e \<Rightarrow> Inl e | Inr is \<Rightarrow> Inr (i # is)))"

definition parse_shape :: "env \<Rightarrow> string \<Rightarrow> string + int list" where
  "parse_shape E s = int_all (py_int E) (split_on CHR '','' s)"

text \<open>Lines 353 to 359: the converter for the requested format.\<close>

definition convert ::
  "env \<Rightarrow> args \<Rightarrow> int list \<Rightarrow> graph option \<Rightarrow> pyval \<Rightarrow> pyval \<Rightarrow> effect list \<times> json outcome"
where
  "convert E A input_shape traced_model state_dict checkpoint =
     (case arg_format A of
        CoreML \<Rightarrow>
          (case traced_model of
             None \<Rightarrow>
               (error (''CoreML conversion requires a traceable model. ''
                       @ ''This checkpoint only contains weights (state_dict). ''
                       @ ''Try MLX format instead.'') ''STATE_DICT_ONLY'',
                Exit 1)
           | Some g \<Rightarrow> convert_to_coreml E g input_shape (arg_output A) (arg_name A))
      | MLX \<Rightarrow> convert_to_mlx E state_dict input_shape (arg_output A) checkpoint)"

text \<open>The body of the \<open>try\<close> of \<open>main\<close>, lines 341 to 361.\<close>

definition main_body :: "env \<Rightarrow> args \<Rightarrow> effect list \<times> unit outcome" where
  "main_body E A =
     (case parse_shape E (arg_input_shape A) of
        Inl e \<Rightarrow> ([], Raise e)
      | Inr input_shape \<Rightarrow>
          (let ev0 = log_event ''info'' (''Input shape: '' @ repr_tuple input_shape)
           in if length input_shape < 2
              then (ev0 @ error ''Input shape must have at least 2 dimensions'' ''INVALID_SHAPE'',
                    Exit 1)
              else
                (case load_pytorch_model E (arg_input A) input_shape of
                   (ev1, Raise e) \<Rightarrow> (ev0 @ ev1, Raise e)
                 | (ev1, Exit n) \<Rightarrow> (ev0 @ ev1, Exit n)
                 | (ev1, Return (traced_model, state_dict, checkpoint)) \<Rightarrow>
                     (case convert E A input_shape traced_model state_dict checkpoint of
                        (ev2, Raise e) \<Rightarrow> (ev0 @ ev1 @ ev2, Raise e)
                      | (ev2, Exit n) \<Rightarrow> (ev0 @ ev1 @ ev2, Exit n)
                      | (ev2, Return metadata) \<Rightarrow>
                          (ev0 @ ev1 @ ev2
                             @ completed (arg_output A) (target_str (arg_format A)) metadata,
                           Return ())))))"

text \<open>
  \<open>main\<close>: the effects of the run and the exit status of the process. An exception that
  reaches the handler of line 366 becomes an error event and status 1; a \<open>sys.exit\<close>
  passes through it; returning from \<open>main\<close> is status 0.
\<close>

definition main :: "env \<Rightarrow> args \<Rightarrow> effect list \<times> nat" where
  "main E A =
     (case main_body E A of
        (ev, Return u) \<Rightarrow> (ev, 0)
      | (ev, Raise e) \<Rightarrow> (ev @ error e ''CONVERSION_FAILED'', 1)
      | (ev, Exit n) \<Rightarrow> (ev, n))"

section \<open>Reading a run\<close>

fun events :: "effect list \<Rightarrow> event list" where
  "events [] = []"
| "events (Emit e # fx) = e # events fx"
| "events (x # fx) = events fx"

fun percents :: "event list \<Rightarrow> rat list" where
  "percents [] = []"
| "percents (Progress p s # es) = p # percents es"
| "percents (e # es) = percents es"

fun error_codes :: "event list \<Rightarrow> string list" where
  "error_codes [] = []"
| "error_codes (Error m c # es) = c # error_codes es"
| "error_codes (e # es) = error_codes es"

fun is_completed :: "event \<Rightarrow> bool" where
  "is_completed (Completed p f m) = True"
| "is_completed e = False"

text \<open>
  How a call may end: after \<open>sys.exit\<close> the status is 1 and one error event was printed,
  otherwise none was.
\<close>

fun ends_well :: "effect list \<Rightarrow> 'a outcome \<Rightarrow> bool" where
  "ends_well ev (Exit n) = (n = 1 \<and> length (error_codes (events ev)) = 1)"
| "ends_well ev r = (error_codes (events ev) = [])"

text \<open>
  The entries of a mapping whose value is a tensor, in iteration order; what one pass of
  the loop of \<open>convert_to_mlx\<close> retains of a tensor, and the entry of \<open>layer_info\<close> it
  records.
\<close>

fun tensor_entries :: "(string \<times> pyval) list \<Rightarrow> (string \<times> tensor) list" where
  "tensor_entries [] = []"
| "tensor_entries ((k, PTensor t) # rest) = (k, t) # tensor_entries rest"
| "tensor_entries (kv # rest) = tensor_entries rest"

definition retained :: "tensor \<Rightarrow> tensor" where
  "retained t = Tensor (t_shape t) (if t_dtype t \<in> {Float16, BFloat16} then Float32 else t_dtype t)"

definition record_of :: "string \<times> tensor \<Rightarrow> layer" where
  "record_of kt = \<lparr>layer_name = fst kt, layer_shape = t_shape (snd kt),
                    layer_dtype = dtype_str (t_dtype (retained (snd kt)))\<rparr>"

fun archives :: "effect list \<Rightarrow> (string \<times> tensor) list list" where
  "archives [] = []"
| "archives (SaveFile ts p # fx) = ts # archives fx"
| "archives (x # fx) = archives fx"

fun sidecars :: "effect list \<Rightarrow> json list" where
  "sidecars [] = []"
| "sidecars (DumpJson j # fx) = j # sidecars fx"
| "sidecars (x # fx) = sidecars fx"

text \<open>
  The words of the specification for the failure mapping of the compiled-package
  converter: \<open>needle\<close> occurs in \<open>s\<close> when letter case is ignored.
\<close>

definition contains_ignoring_case :: "string \<Rightarrow> string \<Rightarrow> bool" where
  "contains_ignoring_case needle s = (\<exists>u. sublist u s \<and> lower u = lower needle)"

section \<open>Sample inputs\<close>

text \<open>
  A world in which every library call succeeds and \<open>torch.load\<close> returns a given
  checkpoint; \<open>decimal_int\<close> reads a token of decimal digits as \<open>int\<close> does and rejects
  everything else.
\<close>

fun decimal_digits :: "string \<Rightarrow> nat \<Rightarrow> string + int" where
  "decimal_digits [] acc = Inr (int acc)"
| "decimal_digits (c # cs) acc =
     (case map_of (zip ''0123456789'' [0, 1, 2, 3, 4, 5, 6, 7, 8, 9]) c of
        None \<Rightarrow> Inl ''invalid literal for int() with base 10''
      | Some d \<Rightarrow> decimal_digits cs (10 * acc + d))"

definition decimal_int :: "string \<Rightarrow> string + int" where
  "decimal_int s =
     (if s = [] then Inl ''invalid literal for int() with base 10'' else decimal_digits s 0)"

definition sample_world :: "pyval \<Rightarrow> env" where
  "sample_world checkpoint =
     \<lparr>py_int = decimal_int, import_torch = None,
      torch_load = (\<lambda>path weights_only. Inr checkpoint),
      jit_trace = (\<lambda>model input_shape. None), jit_script = (\<lambda>model. None),
      has_coremltools = True, ct_input = (\<lambda>input_type. None),
      ct_convert = (\<lambda>traced_model input_type. None), mlmodel_save = (\<lambda>path. None),
      has_safetensors = True, save_file = (\<lambda>tensors path. None),
      dump_metadata = (\<lambda>path metadata. None), path_str = (\<lambda>path. path)\<rparr>"

definition sample_args :: "target \<Rightarrow> string \<Rightarrow> args" where
  "sample_args format input_shape =
     \<lparr>arg_input = ''model.pt'', arg_output = ''model.safetensors'', arg_format = format,
      arg_input_shape = input_shape, arg_name = ''Converted Model''\<rparr>"

definition cnn_checkpoint :: pyval where
  "cnn_checkpoint =
     PDict [(''conv1.weight'', PTensor (Tensor [16, 3, 3, 3] Float16)),
            (''conv1.bias'', PTensor (Tensor [16] Float16))]"

text \<open>A weight mapping with reduced-precision tensors, another tensor and a non-tensor.\<close>

definition mixed_weights :: "(string \<times> pyval) list" where
  "mixed_weights =
     [(''fc.weight'', PTensor (Tensor [4, 2] Float16)),
      (''step'', PObj ''int'' (Some ''no eval'') None),
      (''fc.bias'', PTensor (Tensor [4] BFloat16)),
      (''fc.index'', PTensor (Tensor [4] Int64))]"

text \<open>
  A checkpoint that wraps a module under the key \<open>model\<close>, a world whose compiler rejects
  the graph, and a world in which the checkpoint file cannot be read.
\<close>

definition net :: pyval where
  "net = PObj ''Net'' None (Some (Inr cnn_checkpoint))"

definition model_checkpoint :: pyval where
  "model_checkpoint =
     PDict [(''model'', net), (''state_dict'', cnn_checkpoint),
            (''epoch'', PObj ''int'' (Some ''no eval'') None)]"

text \<open>A checkpoint that holds weights under \<open>state_dict\<close>, beside other entries.\<close>

definition wrapped_weights :: pyval where
  "wrapped_weights =
     PDict [(''epoch'', PObj ''int'' (Some ''no eval'') None),
            (''model_state_dict'', PNone), (''state_dict'', cnn_checkpoint)]"

definition rejecting_world :: env where
  "rejecting_world =
     (sample_world model_checkpoint)\<lparr>ct_convert :=
        (\<lambda>traced_model input_type. Some ''Op aten::foo is NOT SUPPORTED for this shape'')\<rparr>"

definition unreadable_world :: env where
  "unreadable_world =
     (sample_world PNone)\<lparr>torch_load :=
        (\<lambda>path weights_only.
           if weights_only then Inl ''Weights only load failed'' else Inl ''invalid load key'')\<rparr>"

section \<open>Reading effects\<close>

lemma events_append [simp]: "events (a @ b) = events a @ events b"
  by (induction a rule: events.induct) simp_all

lemma percents_append [simp]: "percents (a @ b) = percents a @ percents b"
  by (induction a rule: percents.induct) simp_all

lemma error_codes_append [simp]: "error_codes (a @ b) = error_codes a @ error_codes b"
  by (induction a rule: error_codes.induct) simp_all

lemmas emit_defs = emit_def log_event_def progress_def completed_def error_def

lemma materialize_quiet:
  "materialize E m s c = (ev, r) \<Longrightarrow>
   error_codes (events ev) = [] \<and> \<not> list_ex is_completed (events ev) \<and> (\<forall>n. r \<noteq> Exit n)"
  by (auto simp add: materialize_def emit_defs Let_def split: option.splits sum.splits if_splits)

lemma classify_quiet:
  "classify c = (m, sd, found) \<Longrightarrow> error_codes (events found) = [] \<and> \<not> list_ex is_completed (events found) \<and> percents (events found) = []"
  by (auto simp add: classify_def emit_defs split: pyval.splits option.splits if_splits)

lemma load_quiet:
  "load_pytorch_model E p s = (ev, r) \<Longrightarrow>
   error_codes (events ev) = [] \<and> \<not> list_ex is_completed (events ev) \<and> (\<forall>n. r \<noteq> Exit n)"
  by (auto simp add: load_pytorch_model_def emit_defs Let_def  split: option.splits sum.splits prod.splits if_splits dest: classify_quiet materialize_quiet)

lemma compiler_error_code:
  "error_codes (events (compiler_error e)) =
     [if py_in ''not supported'' (lower e) then ''UNSUPPORTED_OP''
      else if py_in ''shape'' (lower e) then ''SHAPE_MISMATCH'' else ''CONVERSION_FAILED'']"
  by (simp add: compiler_error_def emit_defs)

lemma compiler_error_not_completed: "\<not> list_ex is_completed (events (compiler_error e))"
  by (simp add: compiler_error_def emit_defs)

lemma coreml_ends:
  "convert_to_coreml E g s out nm = (ev, r) \<Longrightarrow>
   \<not> list_ex is_completed (events ev) \<and> ends_well ev r"
  by (auto simp add: convert_to_coreml_def emit_defs Let_def compiler_error_code compiler_error_not_completed
      split: option.splits prod.splits if_splits)

lemma extract_ends:
  "extract_state_dict sd c = (ev, r) \<Longrightarrow>
   \<not> list_ex is_completed (events ev) \<and> ends_well ev r \<and> percents (events ev) = []"
  by (auto simp add: extract_state_dict_def emit_defs Let_def
      split: option.splits prod.splits if_splits pyval.splits sum.splits)

lemma mlx_ends:
  "convert_to_mlx E sd s out c = (ev, r) \<Longrightarrow>
   \<not> list_ex is_completed (events ev) \<and> ends_well ev r"
  by (auto simp add: convert_to_mlx_def emit_defs Let_def
      split: option.splits prod.splits if_splits pyval.splits outcome.splits dest!: extract_ends)

lemma convert_ends:
  "convert E A s tm sd c = (ev, r) \<Longrightarrow>
   \<not> list_ex is_completed (events ev) \<and> ends_well ev r"
  by (auto simp add: convert_def emit_defs split: target.splits option.splits dest: coreml_ends mlx_ends)

lemma main_body_ends:
  "main_body E A = (ev, r) \<Longrightarrow> ends_well ev r"
  by (auto simp add: main_body_def emit_defs Let_def
      split: sum.splits if_splits prod.splits outcome.splits dest!: load_quiet convert_ends)

lemma main_body_raise_quiet:
  "main_body E A = (ev, Raise msg) \<Longrightarrow>
   error_codes (events ev) = [] \<and> \<not> list_ex is_completed (events ev)"
  by (auto simp add: main_body_def emit_defs Let_def
      split: sum.splits if_splits prod.splits outcome.splits dest!: load_quiet convert_ends)

lemma int_all_rejects:
  "tok \<in> set ws \<Longrightarrow> f tok = Inl m \<Longrightarrow> \<exists>msg. int_all f ws = Inl msg"
  by (induction ws) (auto split: sum.splits)

lemma load_fails_twice:
  assumes "import_torch E = None" and "torch_load E path False = Inl e1"
    and "torch_load E path True = Inl e2"
  shows "load_pytorch_model E path shp =
           ([Emit (Log ''info'' (''Loading PyTorch model from '' @ path)),
             Emit (Progress (1 / 10) ''Loading model'')],
            Raise (''Failed to load model: '' @ e1))"
  using assms by (simp add: load_pytorch_model_def emit_defs)

section \<open>Substring tests\<close>

lemma starts_with_prefix: "starts_with s sub \<longleftrightarrow> prefix sub s"
  by (induction s sub rule: starts_with.induct) auto

lemma py_in_sublist: "py_in sub s \<longleftrightarrow> sublist sub s"
  by (induction s) (auto simp: starts_with_prefix sublist_Cons_right)

lemma contains_ignoring_case_code:
  "contains_ignoring_case needle s \<longleftrightarrow> py_in (lower needle) (lower s)"
proof
  assume "contains_ignoring_case needle s"
  then obtain u where u: "sublist u s" "lower u = lower needle"
    by (auto simp: contains_ignoring_case_def)
  from u(1) have "sublist (map lower_char u) (map lower_char s)"
    by (rule map_mono_sublist)
  with u(2) show "py_in (lower needle) (lower s)"
    by (simp add: py_in_sublist lower_def)
next
  assume "py_in (lower needle) (lower s)"
  then have "sublist (lower needle) (map lower_char s)"
    by (simp add: py_in_sublist lower_def)
  then have "\<exists>u. sublist u s \<and> lower needle = map lower_char u"
    by (rule sublist_map_rightE)
  then obtain u where "sublist u s" "lower needle = map lower_char u"
    by blast
  then show "contains_ignoring_case needle s"
    by (auto simp: contains_ignoring_case_def lower_def)
qed

lemma lower_not_supported: "lower ''not supported'' = ''not supported''"
  by (simp add: lower_def lower_char_def)

lemma lower_shape: "lower ''shape'' = ''shape''"
  by (simp add: lower_def lower_char_def)

section \<open>Sample runs\<close>

lemma parse_sample: "parse_shape (sample_world c) ''1,3,224,224'' = Inr [1, 3, 224, 224]"
  by (simp add: parse_shape_def sample_world_def decimal_int_def)

lemma parse_sample_bad: "parse_shape (sample_world c) ''5,x'' = Inl ''invalid literal for int() with base 10''"
  by (simp add: parse_shape_def sample_world_def decimal_int_def)

section \<open>The architecture inferencer\<close>

lemma lower_names: "map (\<lambda>l. lower (layer_name l)) ls = map lower (map layer_name ls)"
  by simp

lemma infer_cnn:
  assumes "map layer_name ls = [''conv1.weight'', ''bn1.weight'']"
  shows "infer_architecture ls = ''CNN''"
  unfolding infer_architecture_def lower_names assms
  by (simp add: lower_def lower_char_def)

lemma infer_transformer:
  assumes "map layer_name ls = [''attention.q.weight'', ''encoder.layer.0'']"
  shows "infer_architecture ls = ''Transformer''"
  unfolding infer_architecture_def lower_names assms
  by (simp add: lower_def lower_char_def)

lemma infer_mlp:
  assumes "map layer_name ls = [''fc1.weight'', ''fc1.bias'']"
  shows "infer_architecture ls = ''MLP''"
  unfolding infer_architecture_def lower_names assms
  by (simp add: lower_def lower_char_def)

lemma infer_empty: "infer_architecture [] = ''MLP''"
  by (simp add: infer_architecture_def)

lemma infer_closed:
  "infer_architecture ls
     \<in> {''ResNet'', ''CNN'', ''Transformer'', ''MLP'', ''YOLOv8'', ''Custom''}"
  unfolding infer_architecture_def Let_def
  by (simp only: if_distrib [of "\<lambda>x. x \<in> _"]) simp

text \<open>
  C3, as the code has it. \<open>infer_architecture\<close> is a function of the layer list alone and
  its value is always one of the six labels. On layers named \<open>conv1.weight\<close>,
  \<open>bn1.weight\<close> it is \<open>CNN\<close>; on \<open>attention.q.weight\<close>, \<open>encoder.layer.0\<close> it is
  \<open>Transformer\<close>; on \<open>fc1.weight\<close>, \<open>fc1.bias\<close> it is \<open>MLP\<close>. On the empty list it is
  \<open>MLP\<close>, not \<open>Custom\<close>: none of the \<open>any\<close> tests holds of no name, and the \<open>all\<close> test
  of the MLP rule holds of no name at all, before the default \<open>Custom\<close> is reached.
\<close>

theorem infer_architecture_examples:
  "(map layer_name a = [''conv1.weight'', ''bn1.weight'']
      \<longrightarrow> infer_architecture a = ''CNN'')
   \<and> (map layer_name b = [''attention.q.weight'', ''encoder.layer.0'']
      \<longrightarrow> infer_architecture b = ''Transformer'')
   \<and> infer_architecture [] = ''MLP''
   \<and> (map layer_name c = [''fc1.weight'', ''fc1.bias'']
      \<longrightarrow> infer_architecture c = ''MLP'')
   \<and> infer_architecture ls
        \<in> {''ResNet'', ''CNN'', ''Transformer'', ''MLP'', ''YOLOv8'', ''Custom''}"
  using infer_cnn [of a] infer_transformer [of b] infer_mlp [of c] infer_empty
    infer_closed [of ls]
  by blast

theorem infer_architecture_examples_witness:
  "infer_architecture
     [\<lparr>layer_name = ''conv1.weight'', layer_shape = [16, 3, 3, 3],
       layer_dtype = ''torch.float32''\<rparr>,
      \<lparr>layer_name = ''bn1.weight'', layer_shape = [16], layer_dtype = ''torch.float32''\<rparr>]
     = ''CNN''
   \<and> infer_architecture
       [\<lparr>layer_name = ''attention.q.weight'', layer_shape = [8, 8],
         layer_dtype = ''torch.float32''\<rparr>,
        \<lparr>layer_name = ''encoder.layer.0'', layer_shape = [8], layer_dtype = ''torch.float32''\<rparr>]
     = ''Transformer''
   \<and> infer_architecture
       [\<lparr>layer_name = ''fc1.weight'', layer_shape = [4, 2], layer_dtype = ''torch.float32''\<rparr>,
        \<lparr>layer_name = ''fc1.bias'', layer_shape = [4], layer_dtype = ''torch.float32''\<rparr>]
     = ''MLP''"
  using infer_architecture_examples
    [of "[\<lparr>layer_name = ''conv1.weight'', layer_shape = [16, 3, 3, 3],
           layer_dtype = ''torch.float32''\<rparr>,
          \<lparr>layer_name = ''bn1.weight'', layer_shape = [16],
           layer_dtype = ''torch.float32''\<rparr>]"
        "[\<lparr>layer_name = ''attention.q.weight'', layer_shape = [8, 8],
           layer_dtype = ''torch.float32''\<rparr>,
          \<lparr>layer_name = ''encoder.layer.0'', layer_shape = [8],
           layer_dtype = ''torch.float32''\<rparr>]"
        "[\<lparr>layer_name = ''fc1.weight'', layer_shape = [4, 2],
           layer_dtype = ''torch.float32''\<rparr>,
          \<lparr>layer_name = ''fc1.bias'', layer_shape = [4], layer_dtype = ''torch.float32''\<rparr>]"
        "[]"]
  by simp

theorem infer_architecture_empty_counterexample:
  "infer_architecture [] \<noteq> ''Custom''"
  by (simp add: infer_architecture_def)

section \<open>Failures of a run\<close>

text \<open>
  C8. When the shape argument parses to fewer than two dimensions, the run prints the
  log line of the shape and one error event with code \<open>INVALID_SHAPE\<close>, and exits with
  status 1. Nothing else happens: no progress event, so the loader was never entered, and
  no completed event.
\<close>

theorem invalid_shape:
  assumes "parse_shape E (arg_input_shape A) = Inr shp" and "length shp < 2"
  shows "main E A =
           ([Emit (Log ''info'' (''Input shape: '' @ repr_tuple shp)),
             Emit (Error ''Input shape must have at least 2 dimensions'' ''INVALID_SHAPE'')], 1)
         \<and> error_codes (events (fst (main E A))) = [''INVALID_SHAPE'']
         \<and> percents (events (fst (main E A))) = []
         \<and> \<not> list_ex is_completed (events (fst (main E A)))"
  using assms by (simp add: main_def main_body_def emit_defs)

theorem invalid_shape_witness:
  "main (sample_world cnn_checkpoint) (sample_args MLX ''5'') =
     ([Emit (Log ''info'' ''Input shape: (5,)''),
       Emit (Error ''Input shape must have at least 2 dimensions'' ''INVALID_SHAPE'')], 1)"
proof -
  have p: "parse_shape (sample_world cnn_checkpoint) (arg_input_shape (sample_args MLX ''5''))
             = Inr [5]"
    by (simp add: parse_shape_def sample_world_def sample_args_def decimal_int_def)
  have r: "repr_tuple [5] = ''(5,)''"
    by code_simp
  show ?thesis
    using invalid_shape [OF p] by (simp add: r)
qed

text \<open>
  C2. When the coreml format is requested and the loader returns weights but no graph
  (from a weights-only checkpoint, or from a model that could be neither traced nor
  scripted), the run ends with status 1; its effects are the log line of the shape, the
  loader's, and one error event with code \<open>STATE_DICT_ONLY\<close>, the only error event of
  the run; there is no completed event.
\<close>

theorem coreml_refuses_weights_only:
  assumes "arg_format A = CoreML"
    and "parse_shape E (arg_input_shape A) = Inr shp" and "2 \<le> length shp"
    and "load_pytorch_model E (arg_input A) shp = (ev, Return (None, sd, ckpt))"
  shows "snd (main E A) = 1
         \<and> fst (main E A) =
             Emit (Log ''info'' (''Input shape: '' @ repr_tuple shp)) # ev
               @ [Emit (Error (''CoreML conversion requires a traceable model. ''
                               @ ''This checkpoint only contains weights (state_dict). ''
                               @ ''Try MLX format instead.'') ''STATE_DICT_ONLY'')]
         \<and> error_codes (events (fst (main E A))) = [''STATE_DICT_ONLY'']
         \<and> \<not> list_ex is_completed (events (fst (main E A)))"
  using assms load_quiet [OF assms(4)]
  by (simp add: main_def main_body_def convert_def emit_defs)

theorem coreml_refuses_weights_only_witness:
  "snd (main (sample_world cnn_checkpoint) (sample_args CoreML ''1,3,224,224'')) = 1
   \<and> error_codes (events (fst (main (sample_world cnn_checkpoint)
                                   (sample_args CoreML ''1,3,224,224''))))
       = [''STATE_DICT_ONLY'']
   \<and> \<not> list_ex is_completed
         (events (fst (main (sample_world cnn_checkpoint) (sample_args CoreML ''1,3,224,224''))))"
proof -
  let ?E = "sample_world cnn_checkpoint" and ?A = "sample_args CoreML ''1,3,224,224''"
  have f: "arg_format ?A = CoreML"
    by (simp add: sample_args_def)
  have p: "parse_shape ?E (arg_input_shape ?A) = Inr [1, 3, 224, 224]"
    by (simp add: sample_args_def parse_sample)
  have n: "2 \<le> length [1, 3, 224, 224 :: int]"
    by simp
  have "snd (load_pytorch_model ?E (arg_input ?A) [1, 3, 224, 224])
          = Return (None, cnn_checkpoint, cnn_checkpoint)"
    by (simp add: load_pytorch_model_def classify_def sample_world_def cnn_checkpoint_def)
  then have l: "load_pytorch_model ?E (arg_input ?A) [1, 3, 224, 224]
          = (fst (load_pytorch_model ?E (arg_input ?A) [1, 3, 224, 224]),
             Return (None, cnn_checkpoint, cnn_checkpoint))"
    by (simp add: prod_eq_iff)
  show ?thesis
    using coreml_refuses_weights_only [OF f p n l] by blast
qed

text \<open>
  C7. When \<open>ct.convert\<close> raises with message \<open>msg\<close>, the run ends with status 1 and
  its last effect is an error event, the only one of the run. Its code is
  \<open>UNSUPPORTED_OP\<close> if \<open>msg\<close> contains \<open>not supported\<close> when letter case is ignored,
  else \<open>SHAPE_MISMATCH\<close> if it so contains \<open>shape\<close>, else \<open>CONVERSION_FAILED\<close>. There is
  no completed event.
\<close>

theorem compiler_failure_codes:
  assumes "arg_format A = CoreML"
    and "parse_shape E (arg_input_shape A) = Inr shp" and "2 \<le> length shp"
    and "load_pytorch_model E (arg_input A) shp = (ev, Return (Some g, sd, ckpt))"
    and "has_coremltools E" and "ct_input E (fst (choose_input shp)) = None"
    and "ct_convert E g (fst (choose_input shp)) = Some msg"
  shows "snd (main E A) = 1
         \<and> error_codes (events (fst (main E A))) =
             [if contains_ignoring_case ''not supported'' msg then ''UNSUPPORTED_OP''
              else if contains_ignoring_case ''shape'' msg then ''SHAPE_MISMATCH''
              else ''CONVERSION_FAILED'']
         \<and> (\<exists>pre m' c'. fst (main E A) = pre @ [Emit (Error m' c')])
         \<and> \<not> list_ex is_completed (events (fst (main E A)))"
proof -
  obtain it said where c: "choose_input shp = (it, said)"
    by (cases "choose_input shp")
  have m: "main E A =
             (log_event ''info'' (''Input shape: '' @ repr_tuple shp) @ ev
                @ (log_event ''info'' ''Converting to CoreML format''
                   @ progress (5 / 10) ''Converting to CoreML''
                   @ log_event ''info'' said
                   @ progress (6 / 10) ''Running coremltools conversion'')
                @ compiler_error msg, 1)"
    using assms c
    by (simp add: main_def main_body_def convert_def convert_to_coreml_def)
  have single: "\<exists>m' c'. compiler_error msg = [Emit (Error m' c')]"
    by (simp add: compiler_error_def emit_defs)
  then obtain m' c' where l: "compiler_error msg = [Emit (Error m' c')]" by blast
  have "fst (main E A) = (log_event ''info'' (''Input shape: '' @ repr_tuple shp) @ ev
                @ (log_event ''info'' ''Converting to CoreML format''
                   @ progress (5 / 10) ''Converting to CoreML''
                   @ log_event ''info'' said
                   @ progress (6 / 10) ''Running coremltools conversion'')) @ [Emit (Error m' c')]"
    by (simp add: m l)
  then have e: "\<exists>pre m' c'. fst (main E A) = pre @ [Emit (Error m' c')]" by blast
  have codes: "error_codes (events (fst (main E A))) = error_codes (events (compiler_error msg))"
    using load_quiet [OF assms(4)] by (simp add: m emit_defs)
  have nc: "\<not> list_ex is_completed (events (fst (main E A)))"
    using load_quiet [OF assms(4)] by (simp add: m emit_defs compiler_error_not_completed)
  show ?thesis
    using e nc by (simp add: codes compiler_error_code contains_ignoring_case_code lower_not_supported lower_shape) (simp add: m)
qed

theorem compiler_failure_codes_witness:
  "snd (main rejecting_world (sample_args CoreML ''1,3,224,224'')) = 1
   \<and> error_codes (events (fst (main rejecting_world (sample_args CoreML ''1,3,224,224''))))
       = [''UNSUPPORTED_OP'']"
proof -
  let ?E = "rejecting_world" and ?A = "sample_args CoreML ''1,3,224,224''"
  have f: "arg_format ?A = CoreML"
    by (simp add: sample_args_def)
  have p: "parse_shape ?E (arg_input_shape ?A) = Inr [1, 3, 224, 224]"
    by (simp add: sample_args_def rejecting_world_def parse_shape_def sample_world_def
        decimal_int_def)
  have n: "2 \<le> length [1, 3, 224, 224 :: int]"
    by simp
  have "snd (load_pytorch_model ?E (arg_input ?A) [1, 3, 224, 224])
          = Return (Some (Traced net), PNone, model_checkpoint)"
    by (simp add: load_pytorch_model_def classify_def materialize_def rejecting_world_def
        sample_world_def model_checkpoint_def net_def)
  then have l: "load_pytorch_model ?E (arg_input ?A) [1, 3, 224, 224]
          = (fst (load_pytorch_model ?E (arg_input ?A) [1, 3, 224, 224]),
             Return (Some (Traced net), PNone, model_checkpoint))"
    by (simp add: prod_eq_iff)
  have c: "has_coremltools ?E" "ct_input ?E (fst (choose_input [1, 3, 224, 224])) = None"
    "ct_convert ?E (Traced net) (fst (choose_input [1, 3, 224, 224]))
       = Some ''Op aten::foo is NOT SUPPORTED for this shape''"
    by (simp_all add: rejecting_world_def sample_world_def)
  have k: "contains_ignoring_case ''not supported''
             ''Op aten::foo is NOT SUPPORTED for this shape''"
    by (simp add: contains_ignoring_case_code lower_def lower_char_def)
  show ?thesis
    using compiler_failure_codes [OF f p n l c] k by simp
qed

text \<open>
  C10. An exception that no branch handles reaches the handler of \<open>main\<close>: the run then
  prints exactly one error event, with code \<open>CONVERSION_FAILED\<close> and the message of the
  exception, as its last effect, and exits with status 1. A shape argument with a token
  that \<open>int\<close> rejects is such a failure, with nothing printed before the error event. A
  checkpoint that both load attempts reject is one too, and the message is
  \<open>Failed to load model:\<close> followed by the message of the first attempt.
\<close>

theorem generic_failures:
  "(main_body E A = (ev, Raise msg) \<longrightarrow>
      main E A = (ev @ [Emit (Error msg ''CONVERSION_FAILED'')], 1)
      \<and> error_codes (events (fst (main E A))) = [''CONVERSION_FAILED'']
      \<and> \<not> list_ex is_completed (events (fst (main E A))))
   \<and> (tok \<in> set (split_on CHR '','' (arg_input_shape A)) \<and> py_int E tok = Inl m \<longrightarrow>
        (\<exists>msg'. parse_shape E (arg_input_shape A) = Inl msg'))
   \<and> (parse_shape E (arg_input_shape A) = Inl msg' \<longrightarrow>
        main E A = ([Emit (Error msg' ''CONVERSION_FAILED'')], 1))
   \<and> (parse_shape E (arg_input_shape A) = Inr shp \<and> 2 \<le> length shp
        \<and> import_torch E = None \<and> torch_load E (arg_input A) False = Inl e1
        \<and> torch_load E (arg_input A) True = Inl e2 \<longrightarrow>
        main E A =
          ([Emit (Log ''info'' (''Input shape: '' @ repr_tuple shp)),
            Emit (Log ''info'' (''Loading PyTorch model from '' @ arg_input A)),
            Emit (Progress (1 / 10) ''Loading model''),
            Emit (Error (''Failed to load model: '' @ e1) ''CONVERSION_FAILED'')], 1))"
proof (intro conjI impI)
  assume b: "main_body E A = (ev, Raise msg)"
  then show "main E A = (ev @ [Emit (Error msg ''CONVERSION_FAILED'')], 1)"
    by (simp add: main_def emit_defs)
  then show "error_codes (events (fst (main E A))) = [''CONVERSION_FAILED'']"
    using main_body_raise_quiet [OF b] by simp
  show "\<not> list_ex is_completed (events (fst (main E A)))"
    using main_body_raise_quiet [OF b] b by (simp add: main_def emit_defs)
next
  assume "tok \<in> set (split_on CHR '','' (arg_input_shape A)) \<and> py_int E tok = Inl m"
  then show "\<exists>msg'. parse_shape E (arg_input_shape A) = Inl msg'"
    unfolding parse_shape_def by (blast intro: int_all_rejects)
next
  assume "parse_shape E (arg_input_shape A) = Inl msg'"
  then show "main E A = ([Emit (Error msg' ''CONVERSION_FAILED'')], 1)"
    by (simp add: main_def main_body_def emit_defs)
next
  assume h: "parse_shape E (arg_input_shape A) = Inr shp \<and> 2 \<le> length shp
        \<and> import_torch E = None \<and> torch_load E (arg_input A) False = Inl e1
        \<and> torch_load E (arg_input A) True = Inl e2"
  then have "load_pytorch_model E (arg_input A) shp =
           ([Emit (Log ''info'' (''Loading PyTorch model from '' @ arg_input A)),
             Emit (Progress (1 / 10) ''Loading model'')],
            Raise (''Failed to load model: '' @ e1))"
    by (intro load_fails_twice) simp_all
  with h show "main E A =
          ([Emit (Log ''info'' (''Input shape: '' @ repr_tuple shp)),
            Emit (Log ''info'' (''Loading PyTorch model from '' @ arg_input A)),
            Emit (Progress (1 / 10) ''Loading model''),
            Emit (Error (''Failed to load model: '' @ e1) ''CONVERSION_FAILED'')], 1)"
    by (simp add: main_def main_body_def emit_defs)
qed

theorem generic_failures_witness:
  "main unreadable_world (sample_args MLX ''1,3,224,224'') =
     ([Emit (Log ''info'' ''Input shape: (1, 3, 224, 224)''),
       Emit (Log ''info'' ''Loading PyTorch model from model.pt''),
       Emit (Progress (1 / 10) ''Loading model''),
       Emit (Error ''Failed to load model: invalid load key'' ''CONVERSION_FAILED'')], 1)
   \<and> main (sample_world cnn_checkpoint) (sample_args MLX ''5,x'') =
     ([Emit (Error ''invalid literal for int() with base 10'' ''CONVERSION_FAILED'')], 1)"
proof -
  have r: "repr_tuple [1, 3, 224, 224] = ''(1, 3, 224, 224)''"
    by code_simp
  have p: "parse_shape unreadable_world (arg_input_shape (sample_args MLX ''1,3,224,224'')) = Inr [1, 3, 224, 224]"
    by (simp add: unreadable_world_def parse_shape_def sample_world_def sample_args_def decimal_int_def)
  have l: "import_torch unreadable_world = None"
    "torch_load unreadable_world (arg_input (sample_args MLX ''1,3,224,224'')) False = Inl ''invalid load key''"
    "torch_load unreadable_world (arg_input (sample_args MLX ''1,3,224,224'')) True = Inl ''Weights only load failed''"
    by (simp_all add: unreadable_world_def sample_world_def)
  have q: "parse_shape (sample_world cnn_checkpoint) (arg_input_shape (sample_args MLX ''5,x'')) = Inl ''invalid literal for int() with base 10''"
    by (simp add: sample_args_def parse_sample_bad)
  have a: "arg_input (sample_args MLX ''1,3,224,224'') = ''model.pt''"
    by (simp add: sample_args_def)
  show ?thesis
    using generic_failures [of unreadable_world "sample_args MLX ''1,3,224,224''" _ _ _ _ _ "[1, 3, 224, 224]" "''invalid load key''" "''Weights only load failed''"]
      generic_failures [of "sample_world cnn_checkpoint" "sample_args MLX ''5,x''" _ _ _ _ "''invalid literal for int() with base 10''"]
      p l q
    by (simp add: r a)
qed

section \<open>The weight archive\<close>

lemma process_tensors_fold:
  "process_tensors items acc li =
     (foldl (\<lambda>a (k, t). dict_set a k (retained t)) acc (tensor_entries items),
      li @ map record_of (tensor_entries items))"
proof (induction items arbitrary: acc li)
  case Nil
  show ?case by simp
next
  case (Cons kv items)
  obtain k v where kv: "kv = (k, v)" by (cases kv)
  show ?case
    by (cases v) (simp_all add: kv Cons.IH Let_def retained_def record_of_def contiguous_def to_float_def)
qed

lemma dict_set_fresh: "k \<notin> fst ` set a \<Longrightarrow> dict_set a k v = a @ [(k, v)]"
  by (induction a) auto

lemma set_dict_set: "set (dict_set a k v) \<subseteq> insert (k, v) (set a)"
  by (induction a) auto

lemma keys_dict_set: "fst ` set (dict_set a k v) = insert k (fst ` set a)"
  by (induction a) auto

lemma foldl_dict_set_subset:
  "set (foldl (\<lambda>a (k, t). dict_set a k (f t)) acc es) \<subseteq> set acc \<union> (\<lambda>(k, t). (k, f t)) ` set es"
proof (induction es arbitrary: acc)
  case Nil show ?case by simp
next
  case (Cons e es)
  obtain k t where e: "e = (k, t)" by (cases e)
  show ?case using Cons.IH [of "dict_set acc k (f t)"] set_dict_set [of acc k "f t"]
    by (auto simp: e)
qed

lemma foldl_dict_set_keys:
  "fst ` set (foldl (\<lambda>a (k, t). dict_set a k (f t)) acc es) = fst ` set acc \<union> fst ` set es"
proof (induction es arbitrary: acc)
  case Nil show ?case by simp
next
  case (Cons e es)
  obtain k t where e: "e = (k, t)" by (cases e)
  show ?case using Cons.IH [of "dict_set acc k (f t)"]
    by (auto simp: e keys_dict_set)
qed

lemma foldl_dict_set_distinct:
  "distinct (map fst es) \<Longrightarrow> fst ` set acc \<inter> fst ` set es = {} \<Longrightarrow>
   foldl (\<lambda>a (k, t). dict_set a k (f t)) acc es = acc @ map (\<lambda>(k, t). (k, f t)) es"
proof (induction es arbitrary: acc)
  case Nil show ?case by simp
next
  case (Cons e es)
  obtain k t where e: "e = (k, t)" by (cases e)
  have fresh: "k \<notin> fst ` set acc" using Cons.prems(2) by (auto simp: e)
  have "fst ` set (acc @ [(k, f t)]) \<inter> fst ` set es = {}"
    using Cons.prems by (auto simp: e)
  then show ?case using Cons.IH [of "acc @ [(k, f t)]"] Cons.prems(1)
    by (simp add: e dict_set_fresh [OF fresh])
qed

lemma tensor_entries_set: "(k, t) \<in> set (tensor_entries items) \<longleftrightarrow> (k, PTensor t) \<in> set items"
  by (induction items rule: tensor_entries.induct) auto

lemma tensor_entries_keys: "fst ` set (tensor_entries items) \<subseteq> fst ` set items"
  by (induction items rule: tensor_entries.induct) auto

lemma tensor_entries_distinct: "distinct (map fst items) \<Longrightarrow> distinct (map fst (tensor_entries items))"
proof (induction items rule: tensor_entries.induct)
  case (2 k t rest)
  then show ?case using tensor_entries_keys [of rest] by auto
qed simp_all

lemma retained_dtype: "t_dtype (retained t) \<notin> {Float16, BFloat16}"
  by (simp add: retained_def)

lemma mlx_archive:
  "SaveFile ts p \<in> set (fst (convert_to_mlx E sd s out c)) \<Longrightarrow>
   \<exists>items. ts = fst (process_tensors items [] [])"
  by (auto simp add: convert_to_mlx_def emit_defs Let_def extract_state_dict_def
      split: option.splits prod.splits if_splits pyval.splits outcome.splits sum.splits)
    (metis fst_conv)+

text \<open>
  C4. For every weight mapping, the loop of \<open>convert_to_mlx\<close> records one entry of
  \<open>layer_info\<close> per tensor-valued entry of the mapping, in order, under its key, with the
  shape of the source tensor and with the label of its element type, or of 32-bit float
  when the element type is float16 or bfloat16. Every tensor kept for the archive has the
  shape of a source tensor under the same key, that element type, and so never float16 or
  bfloat16; the keys kept are those of the tensor-valued entries, the other values being
  skipped; with distinct keys the archive is exactly the list of converted tensors. No
  archive that \<open>convert_to_mlx\<close> writes holds a float16 or bfloat16 tensor.
\<close>

theorem tensors_upcast_shapes_kept:
  assumes "process_tensors items [] [] = (tensors, layer_info)"
  shows "map layer_name layer_info = map fst (tensor_entries items)
       \<and> map layer_shape layer_info = map (\<lambda>(k, t). t_shape t) (tensor_entries items)
       \<and> map layer_dtype layer_info =
           map (\<lambda>(k, t). dtype_str (if t_dtype t \<in> {Float16, BFloat16} then Float32
                                     else t_dtype t)) (tensor_entries items)
       \<and> (\<forall>(k, t') \<in> set tensors.
             t_dtype t' \<notin> {Float16, BFloat16}
             \<and> (\<exists>t. (k, PTensor t) \<in> set items \<and> t_shape t' = t_shape t
                     \<and> t_dtype t' = (if t_dtype t \<in> {Float16, BFloat16} then Float32
                                      else t_dtype t)))
       \<and> fst ` set tensors = fst ` set (tensor_entries items)
       \<and> (distinct (map fst items) \<longrightarrow>
             tensors = map (\<lambda>(k, t). (k, Tensor (t_shape t)
                                            (if t_dtype t \<in> {Float16, BFloat16} then Float32
                                             else t_dtype t))) (tensor_entries items))
       \<and> (\<forall>ts p. SaveFile ts p \<in> set (fst (convert_to_mlx E sd s out c)) \<longrightarrow>
             (\<forall>(k, t) \<in> set ts. t_dtype t \<notin> {Float16, BFloat16}))"
proof -
  have t: "tensors = foldl (\<lambda>a (k, t). dict_set a k (retained t)) [] (tensor_entries items)"
    and l: "layer_info = map record_of (tensor_entries items)"
    using assms by (simp_all add: process_tensors_fold)
  have names: "map layer_name layer_info = map fst (tensor_entries items)"
    by (simp add: l record_of_def)
  have shapes: "map layer_shape layer_info = map (\<lambda>(k, t). t_shape t) (tensor_entries items)"
    by (simp add: l record_of_def case_prod_unfold)
  have dtypes: "map layer_dtype layer_info =
           map (\<lambda>(k, t). dtype_str (if t_dtype t \<in> {Float16, BFloat16} then Float32
                                     else t_dtype t)) (tensor_entries items)"
    by (simp add: l record_of_def retained_def case_prod_unfold)
  have sub: "set tensors \<subseteq> (\<lambda>(k, t). (k, retained t)) ` set (tensor_entries items)"
    using foldl_dict_set_subset [of retained "[]" "tensor_entries items"] by (simp add: t)
  have each: "\<forall>(k, t') \<in> set tensors.
             t_dtype t' \<notin> {Float16, BFloat16}
             \<and> (\<exists>t. (k, PTensor t) \<in> set items \<and> t_shape t' = t_shape t
                     \<and> t_dtype t' = (if t_dtype t \<in> {Float16, BFloat16} then Float32
                                      else t_dtype t))"
  proof (clarify, intro conjI)
    fix k t' assume "(k, t') \<in> set tensors"
    with sub obtain t0 where t0: "(k, t0) \<in> set (tensor_entries items)" "t' = retained t0"
      by auto
    show "t_dtype t' \<notin> {Float16, BFloat16}"
      by (simp only: t0 retained_dtype not_False_eq_True)
    show "\<exists>t. (k, PTensor t) \<in> set items \<and> t_shape t' = t_shape t
                     \<and> t_dtype t' = (if t_dtype t \<in> {Float16, BFloat16} then Float32
                                      else t_dtype t)"
      using t0 by (auto simp: tensor_entries_set retained_def intro!: exI [of _ t0])
  qed
  have keys: "fst ` set tensors = fst ` set (tensor_entries items)"
    using foldl_dict_set_keys [of retained "[]" "tensor_entries items"] by (simp add: t)
  have exact: "distinct (map fst items) \<longrightarrow>
             tensors = map (\<lambda>(k, t). (k, Tensor (t_shape t)
                                            (if t_dtype t \<in> {Float16, BFloat16} then Float32
                                             else t_dtype t))) (tensor_entries items)"
  proof
    assume "distinct (map fst items)"
    then have "distinct (map fst (tensor_entries items))"
      by (rule tensor_entries_distinct)
    then have "tensors = [] @ map (\<lambda>(k, t). (k, retained t)) (tensor_entries items)"
      unfolding t by (intro foldl_dict_set_distinct) simp_all
    then show "tensors = map (\<lambda>(k, t). (k, Tensor (t_shape t)
                                            (if t_dtype t \<in> {Float16, BFloat16} then Float32
                                             else t_dtype t))) (tensor_entries items)"
      by (simp add: retained_def)
  qed
  have archive: "\<forall>ts p. SaveFile ts p \<in> set (fst (convert_to_mlx E sd s out c)) \<longrightarrow>
             (\<forall>(k, t) \<in> set ts. t_dtype t \<notin> {Float16, BFloat16})"
  proof (intro allI impI)
    fix ts p assume "SaveFile ts p \<in> set (fst (convert_to_mlx E sd s out c))"
    then obtain its where "ts = fst (process_tensors its [] [])"
      using mlx_archive by blast
    then have "set ts \<subseteq> (\<lambda>(k, t). (k, retained t)) ` set (tensor_entries its)"
      using foldl_dict_set_subset [of retained "[]" "tensor_entries its"]
      by (simp add: process_tensors_fold)
    then show "\<forall>(k, t) \<in> set ts. t_dtype t \<notin> {Float16, BFloat16}"
      using retained_dtype by fastforce
  qed
  from names shapes dtypes each keys exact archive show ?thesis
    by blast
qed

theorem tensors_upcast_shapes_kept_witness:
  "fst (process_tensors mixed_weights [] []) =
     [(''fc.weight'', Tensor [4, 2] Float32), (''fc.bias'', Tensor [4] Float32),
      (''fc.index'', Tensor [4] Int64)]
   \<and> map layer_shape (snd (process_tensors mixed_weights [] [])) = [[4, 2], [4], [4]]
   \<and> map layer_dtype (snd (process_tensors mixed_weights [] []))
       = [''torch.float32'', ''torch.float32'', ''torch.int64'']"
proof -
  have d: "distinct (map fst mixed_weights)"
    by (simp add: mixed_weights_def)
  have e: "tensor_entries mixed_weights =
             [(''fc.weight'', Tensor [4, 2] Float16), (''fc.bias'', Tensor [4] BFloat16),
              (''fc.index'', Tensor [4] Int64)]"
    by (simp add: mixed_weights_def)
  have p: "process_tensors mixed_weights [] [] =
             (fst (process_tensors mixed_weights [] []), snd (process_tensors mixed_weights [] []))"
    by simp
  show ?thesis
    using tensors_upcast_shapes_kept [OF p] d by (simp add: e)
qed

section \<open>Runs to the flat tensor archive\<close>

lemma archives_append [simp]: "archives (a @ b) = archives a @ archives b"
  by (induction a rule: archives.induct) simp_all

lemma sidecars_append [simp]: "sidecars (a @ b) = sidecars a @ sidecars b"
  by (induction a rule: sidecars.induct) simp_all

lemma load_weights_only:
  assumes "import_torch E = None" and "torch_load E path False = Inr (PDict kvs)"
    and "map_of kvs ''model'' = None" and "map_of kvs ''state_dict'' = None"
    and "map_of kvs ''model_state_dict'' = None" and "list_all is_tensor (map snd kvs)"
  shows "load_pytorch_model E path shp =
           (log_event ''info'' (''Loading PyTorch model from '' @ path)
              @ progress (1 / 10) ''Loading model''
              @ progress (2 / 10) ''Analyzing checkpoint''
              @ log_event ''info'' ''Checkpoint appears to be a state_dict''
              @ progress (3 / 10) ''Preparing model''
              @ log_event ''warning'' ''Checkpoint contains only weights (state_dict)''
              @ log_event ''info'' ''MLX conversion will proceed with raw weights'',
            Return (None, PDict kvs, PDict kvs))"
  using assms by (simp add: load_pytorch_model_def classify_def)

lemma mlx_of_weights:
  assumes "has_safetensors E" and "process_tensors kvs [] [] = (ts, li)"
    and "save_file E ts out = None" and "dump_metadata E out (mlx_sidecar shp ts li) = None"
  shows "convert_to_mlx E (PDict kvs) shp out c =
           (log_event ''info'' ''Converting to MLX safetensors format''
              @ progress (5 / 10) ''Extracting weights''
              @ progress (6 / 10) ''Processing tensors''
              @ progress (8 / 10) ''Saving safetensors''
              @ log_event ''info'' (''Saving MLX model to '' @ path_str E out)
              @ [SaveFile ts out]
              @ progress (9 / 10) ''Saving metadata''
              @ [DumpJson (mlx_sidecar shp ts li)]
              @ progress 1 ''Complete'',
            Return (mlx_metadata shp ts li))"
  using assms by (simp add: convert_to_mlx_def extract_state_dict_def)

lemma mlx_run:
  assumes "arg_format A = MLX"
    and "parse_shape E (arg_input_shape A) = Inr shp" and "2 \<le> length shp"
    and "import_torch E = None" and "torch_load E (arg_input A) False = Inr (PDict kvs)"
    and "map_of kvs ''model'' = None" and "map_of kvs ''state_dict'' = None"
    and "map_of kvs ''model_state_dict'' = None" and "list_all is_tensor (map snd kvs)"
    and "has_safetensors E" and "process_tensors kvs [] [] = (ts, li)"
    and "save_file E ts (arg_output A) = None"
    and "dump_metadata E (arg_output A) (mlx_sidecar shp ts li) = None"
  shows "snd (main E A) = 0"
    and "archives (fst (main E A)) = [ts]"
    and "sidecars (fst (main E A)) = [mlx_sidecar shp ts li]"
    and "filter is_completed (events (fst (main E A)))
           = [Completed (arg_output A) ''mlx'' (mlx_metadata shp ts li)]"
    and "error_codes (events (fst (main E A))) = []"
proof -
  have m: "main_body E A =
             (log_event ''info'' (''Input shape: '' @ repr_tuple shp)
                @ fst (load_pytorch_model E (arg_input A) shp)
                @ fst (convert_to_mlx E (PDict kvs) shp (arg_output A) (PDict kvs))
                @ completed (arg_output A) ''mlx'' (mlx_metadata shp ts li), Return ())"
    using assms(1-3)
    by (simp add: main_body_def convert_def
        load_weights_only [OF assms(4-9)] mlx_of_weights [OF assms(10-13)])
  show "snd (main E A) = 0"
    by (simp add: main_def m)
  have f: "fst (main E A) = fst (main_body E A)"
    by (simp add: main_def m)
  show "archives (fst (main E A)) = [ts]"
    by (simp add: f m load_weights_only [OF assms(4-9)] mlx_of_weights [OF assms(10-13)]
        emit_defs)
  show "sidecars (fst (main E A)) = [mlx_sidecar shp ts li]"
    by (simp add: f m load_weights_only [OF assms(4-9)] mlx_of_weights [OF assms(10-13)]
        emit_defs)
  show "filter is_completed (events (fst (main E A)))
           = [Completed (arg_output A) ''mlx'' (mlx_metadata shp ts li)]"
    by (simp add: f m load_weights_only [OF assms(4-9)] mlx_of_weights [OF assms(10-13)]
        emit_defs)
  show "error_codes (events (fst (main E A))) = []"
    by (simp add: f m load_weights_only [OF assms(4-9)] mlx_of_weights [OF assms(10-13)]
        emit_defs)
qed

lemma cnn_tensors:
  "process_tensors
     [(''conv1.weight'', PTensor (Tensor [16, 3, 3, 3] Float16)),
      (''conv1.bias'', PTensor (Tensor [16] Float16))] [] [] =
     ([(''conv1.weight'', Tensor [16, 3, 3, 3] Float32), (''conv1.bias'', Tensor [16] Float32)],
      [\<lparr>layer_name = ''conv1.weight'', layer_shape = [16, 3, 3, 3],
         layer_dtype = ''torch.float32''\<rparr>,
       \<lparr>layer_name = ''conv1.bias'', layer_shape = [16], layer_dtype = ''torch.float32''\<rparr>])"
  by (simp add: to_float_def contiguous_def)

lemma cnn_sidecar:
  "mlx_sidecar shp
     [(''conv1.weight'', Tensor [16, 3, 3, 3] Float32), (''conv1.bias'', Tensor [16] Float32)]
     [\<lparr>layer_name = ''conv1.weight'', layer_shape = [16, 3, 3, 3],
        layer_dtype = ''torch.float32''\<rparr>,
      \<lparr>layer_name = ''conv1.bias'', layer_shape = [16], layer_dtype = ''torch.float32''\<rparr>] = j
   \<Longrightarrow> field j ''architectureType'' = Some (JStr ''CNN'')
       \<and> field j ''layerCount'' = Some (JInt 2)
       \<and> field j ''totalParameters'' = Some (JInt 448)
       \<and> field j ''format'' = Some (JStr ''mlx'')"
  by (auto simp add: mlx_sidecar_def numel_def infer_architecture_def lower_def lower_char_def)

lemma cnn_facts:
  "map_of [(''conv1.weight'', PTensor (Tensor [16, 3, 3, 3] Float16)),
           (''conv1.bias'', PTensor (Tensor [16] Float16))] ''model'' = None"
  "map_of [(''conv1.weight'', PTensor (Tensor [16, 3, 3, 3] Float16)),
           (''conv1.bias'', PTensor (Tensor [16] Float16))] ''state_dict'' = None"
  "map_of [(''conv1.weight'', PTensor (Tensor [16, 3, 3, 3] Float16)),
           (''conv1.bias'', PTensor (Tensor [16] Float16))] ''model_state_dict'' = None"
  "list_all is_tensor (map snd [(''conv1.weight'', PTensor (Tensor [16, 3, 3, 3] Float16)),
           (''conv1.bias'', PTensor (Tensor [16] Float16))])"
  by simp_all

lemma sample_world_fields:
  "import_torch (sample_world c) = None"
  "torch_load (sample_world c) path w = Inr c"
  "has_safetensors (sample_world c)"
  "save_file (sample_world c) ts out = None"
  "dump_metadata (sample_world c) out j = None"
  by (simp_all add: sample_world_def)

lemma sample_args_fields:
  "arg_format (sample_args f s) = f"
  "arg_input_shape (sample_args f s) = s"
  "arg_output (sample_args f s) = ''model.safetensors''"
  "arg_input (sample_args f s) = ''model.pt''"
  by (simp_all add: sample_args_def)

text \<open>
  C5, as the code has it. The shape argument parses to (1, 3, 224, 224), the checkpoint
  is the mapping of \<open>conv1.weight\<close>, a float16 tensor of shape [16, 3, 3, 3], and
  \<open>conv1.bias\<close>, a float16 tensor of shape [16], the format is mlx, and the libraries
  load and write without error. Then the run ends with status 0; it writes one archive,
  of the two tensors as float32 with their shapes unchanged, and one sidecar document
  with architectureType \<open>CNN\<close>, layerCount 2 and totalParameters 448, which is
  16 * 3 * 3 * 3 + 16 (not 451); it prints exactly one completed event, with format
  \<open>mlx\<close>.
\<close>

theorem cnn_scenario:
  assumes "arg_format A = MLX"
    and "parse_shape E (arg_input_shape A) = Inr [1, 3, 224, 224]"
    and "import_torch E = None"
    and "torch_load E (arg_input A) False = Inr cnn_checkpoint"
    and "has_safetensors E"
    and "\<And>ts. save_file E ts (arg_output A) = None"
    and "\<And>j. dump_metadata E (arg_output A) j = None"
  shows "snd (main E A) = 0
       \<and> archives (fst (main E A)) =
           [[(''conv1.weight'', Tensor [16, 3, 3, 3] Float32),
             (''conv1.bias'', Tensor [16] Float32)]]
       \<and> (\<exists>j. sidecars (fst (main E A)) = [j]
               \<and> field j ''architectureType'' = Some (JStr ''CNN'')
               \<and> field j ''layerCount'' = Some (JInt 2)
               \<and> field j ''totalParameters'' = Some (JInt 448))
       \<and> (\<exists>md. filter is_completed (events (fst (main E A)))
                  = [Completed (arg_output A) ''mlx'' md]
                \<and> field md ''totalParameters'' = Some (JInt 448))"
proof -
  have n: "2 \<le> length [1, 3, 224, 224 :: int]"
    by simp
  note run = mlx_run [OF assms(1,2) n assms(3) assms(4) [unfolded cnn_checkpoint_def]
      cnn_facts assms(5) cnn_tensors assms(6) assms(7)]
  have md: "field (mlx_metadata [1, 3, 224, 224]
              [(''conv1.weight'', Tensor [16, 3, 3, 3] Float32),
               (''conv1.bias'', Tensor [16] Float32)]
              [\<lparr>layer_name = ''conv1.weight'', layer_shape = [16, 3, 3, 3],
                 layer_dtype = ''torch.float32''\<rparr>,
               \<lparr>layer_name = ''conv1.bias'', layer_shape = [16],
                 layer_dtype = ''torch.float32''\<rparr>]) ''totalParameters'' = Some (JInt 448)"
    by (simp add: mlx_metadata_def numel_def)
  show ?thesis
    using run(1,2,3,4) cnn_sidecar [OF refl, of "[1, 3, 224, 224]"] md by blast
qed

theorem cnn_scenario_witness:
  "snd (main (sample_world cnn_checkpoint) (sample_args MLX ''1,3,224,224'')) = 0
   \<and> archives (fst (main (sample_world cnn_checkpoint) (sample_args MLX ''1,3,224,224''))) =
       [[(''conv1.weight'', Tensor [16, 3, 3, 3] Float32),
         (''conv1.bias'', Tensor [16] Float32)]]"
  using cnn_scenario [of "sample_args MLX ''1,3,224,224''" "sample_world cnn_checkpoint"]
  by (simp add: sample_world_fields sample_args_fields parse_sample)

theorem cnn_total_parameters_counterexample:
  "map (\<lambda>j. field j ''totalParameters'')
     (sidecars (fst (main (sample_world cnn_checkpoint) (sample_args MLX ''1,3,224,224''))))
     = [Some (JInt 448)]
   \<and> map (\<lambda>j. field j ''totalParameters'')
     (sidecars (fst (main (sample_world cnn_checkpoint) (sample_args MLX ''1,3,224,224''))))
     \<noteq> [Some (JInt 451)]"
proof -
  let ?E = "sample_world cnn_checkpoint" and ?A = "sample_args MLX ''1,3,224,224''"
  have n: "2 \<le> length [1, 3, 224, 224 :: int]"
    by simp
  have l: "torch_load ?E (arg_input ?A) False =
             Inr (PDict [(''conv1.weight'', PTensor (Tensor [16, 3, 3, 3] Float16)),
                         (''conv1.bias'', PTensor (Tensor [16] Float16))])"
    by (simp add: sample_world_fields cnn_checkpoint_def)
  have p: "parse_shape ?E (arg_input_shape ?A) = Inr [1, 3, 224, 224]"
    by (simp add: sample_args_fields parse_sample)
  have "sidecars (fst (main ?E ?A)) =
          [mlx_sidecar [1, 3, 224, 224]
             [(''conv1.weight'', Tensor [16, 3, 3, 3] Float32),
              (''conv1.bias'', Tensor [16] Float32)]
             [\<lparr>layer_name = ''conv1.weight'', layer_shape = [16, 3, 3, 3],
                layer_dtype = ''torch.float32''\<rparr>,
              \<lparr>layer_name = ''conv1.bias'', layer_shape = [16],
                layer_dtype = ''torch.float32''\<rparr>]]"
    by (rule mlx_run(3) [OF _ p n _ l cnn_facts _ cnn_tensors])
      (simp_all add: sample_world_fields sample_args_fields)
  then show ?thesis
    by (simp add: mlx_sidecar_def numel_def)
qed

text \<open>
  C9. For the empty mapping as checkpoint and the mlx format, with a shape of at least
  two dimensions and libraries that load and write without error: the inspection leaves
  \<open>model\<close> at \<open>None\<close> and takes the empty mapping itself as the weights; the run ends with
  status 0 and no error event; it writes one archive, with no tensor, and one sidecar
  document, and prints one completed event; the document and the event's metadata both
  report layerCount 0, totalParameters 0 and architectureType \<open>MLP\<close>.
\<close>

theorem empty_mapping_run:
  assumes "arg_format A = MLX"
    and "parse_shape E (arg_input_shape A) = Inr shp" and "2 \<le> length shp"
    and "import_torch E = None"
    and "torch_load E (arg_input A) False = Inr (PDict [])"
    and "has_safetensors E"
    and "save_file E [] (arg_output A) = None"
    and "\<And>j. dump_metadata E (arg_output A) j = None"
  shows "fst (classify (PDict [])) = PNone
       \<and> fst (snd (classify (PDict []))) = PDict []
       \<and> snd (main E A) = 0
       \<and> error_codes (events (fst (main E A))) = []
       \<and> archives (fst (main E A)) = [[]]
       \<and> (\<exists>j. sidecars (fst (main E A)) = [j]
               \<and> field j ''layerCount'' = Some (JInt 0)
               \<and> field j ''totalParameters'' = Some (JInt 0)
               \<and> field j ''architectureType'' = Some (JStr ''MLP''))
       \<and> (\<exists>md. filter is_completed (events (fst (main E A)))
                  = [Completed (arg_output A) ''mlx'' md]
                \<and> field md ''layerCount'' = Some (JInt 0)
                \<and> field md ''totalParameters'' = Some (JInt 0)
                \<and> field md ''architectureType'' = Some (JStr ''MLP''))"
proof -
  have e: "map_of ([] :: (string \<times> pyval) list) ''model'' = None"
    "map_of ([] :: (string \<times> pyval) list) ''state_dict'' = None"
    "map_of ([] :: (string \<times> pyval) list) ''model_state_dict'' = None"
    "list_all is_tensor (map snd ([] :: (string \<times> pyval) list))"
    by simp_all
  have t: "process_tensors [] [] [] = ([], [])"
    by simp
  note run = mlx_run [OF assms(1-5) e assms(6) t assms(7) assms(8)]
  have c: "fst (classify (PDict [])) = PNone" "fst (snd (classify (PDict []))) = PDict []"
    by (simp_all add: classify_def)
  have s: "field (mlx_sidecar shp [] []) ''layerCount'' = Some (JInt 0)"
    "field (mlx_sidecar shp [] []) ''totalParameters'' = Some (JInt 0)"
    "field (mlx_sidecar shp [] []) ''architectureType'' = Some (JStr ''MLP'')"
    by (simp_all add: mlx_sidecar_def infer_empty)
  have m: "field (mlx_metadata shp [] []) ''layerCount'' = Some (JInt 0)"
    "field (mlx_metadata shp [] []) ''totalParameters'' = Some (JInt 0)"
    "field (mlx_metadata shp [] []) ''architectureType'' = Some (JStr ''MLP'')"
    by (simp_all add: mlx_metadata_def infer_empty)
  show ?thesis
    using c run s m by blast
qed

theorem empty_mapping_run_witness:
  "snd (main (sample_world (PDict [])) (sample_args MLX ''1,3,224,224'')) = 0
   \<and> archives (fst (main (sample_world (PDict [])) (sample_args MLX ''1,3,224,224''))) = [[]]"
  using empty_mapping_run [of "sample_args MLX ''1,3,224,224''" "sample_world (PDict [])"
      "[1, 3, 224, 224]"]
  by (simp add: sample_world_fields sample_args_fields parse_sample)

section \<open>Progress\<close>

lemma materialize_percents:
  "materialize E m s c = (ev, r) \<Longrightarrow> percents (events ev) \<in> {[], [4 / 10]}"
  by (auto simp add: materialize_def emit_defs Let_def split: option.splits sum.splits if_splits)

lemma load_percents:
  "load_pytorch_model E p s = (ev, r) \<Longrightarrow>
   percents (events ev) \<in> {[], [1 / 10], [1 / 10, 2 / 10, 3 / 10], [1 / 10, 2 / 10, 3 / 10, 4 / 10]}"
  by (auto simp add: load_pytorch_model_def emit_defs Let_def
      split: option.splits sum.splits prod.splits if_splits
      dest!: classify_quiet materialize_percents)

lemma compiler_error_percents: "percents (events (compiler_error e)) = []"
  by (simp add: compiler_error_def emit_defs)

lemma coreml_percents:
  "convert_to_coreml E g s out nm = (ev, r) \<Longrightarrow>
   percents (events ev) \<in> {[], [5 / 10], [5 / 10, 6 / 10], [5 / 10, 6 / 10, 8 / 10, 9 / 10],
                            [5 / 10, 6 / 10, 8 / 10, 9 / 10, 1]}
   \<and> ((\<exists>md. r = Return md) \<longrightarrow> percents (events ev) = [5 / 10, 6 / 10, 8 / 10, 9 / 10, 1])"
  by (auto simp add: convert_to_coreml_def emit_defs Let_def compiler_error_percents
      split: option.splits prod.splits if_splits)

lemma mlx_percents:
  "convert_to_mlx E sd s out c = (ev, r) \<Longrightarrow>
   percents (events ev) \<in> {[], [5 / 10], [5 / 10, 6 / 10], [5 / 10, 6 / 10, 8 / 10],
                            [5 / 10, 6 / 10, 8 / 10, 9 / 10],
                            [5 / 10, 6 / 10, 8 / 10, 9 / 10, 1]}
   \<and> ((\<exists>md. r = Return md) \<longrightarrow> percents (events ev) = [5 / 10, 6 / 10, 8 / 10, 9 / 10, 1])"
  by (auto simp add: convert_to_mlx_def emit_defs Let_def
      split: option.splits prod.splits if_splits pyval.splits outcome.splits dest!: extract_ends)

lemma convert_percents:
  "convert E A s tm sd c = (ev, r) \<Longrightarrow>
   percents (events ev) \<in> {[], [5 / 10], [5 / 10, 6 / 10], [5 / 10, 6 / 10, 8 / 10],
                            [5 / 10, 6 / 10, 8 / 10, 9 / 10],
                            [5 / 10, 6 / 10, 8 / 10, 9 / 10, 1]}
   \<and> ((\<exists>md. r = Return md) \<longrightarrow> percents (events ev) = [5 / 10, 6 / 10, 8 / 10, 9 / 10, 1])"
  using coreml_percents [of E _ s "arg_output A" "arg_name A" ev r]
    mlx_percents [of E sd s "arg_output A" c ev r]
  by (auto simp add: convert_def emit_defs split: target.splits option.splits)

lemma main_body_percents:
  assumes "main_body E A = (ev, r)"
  shows "\<exists>a b. percents (events ev) = a @ b
           \<and> a \<in> {[], [1 / 10], [1 / 10, 2 / 10, 3 / 10], [1 / 10, 2 / 10, 3 / 10, 4 / 10]}
           \<and> b \<in> {[], [5 / 10], [5 / 10, 6 / 10], [5 / 10, 6 / 10, 8 / 10],
                   [5 / 10, 6 / 10, 8 / 10, 9 / 10], [5 / 10, 6 / 10, 8 / 10, 9 / 10, 1]}"
proof (cases "parse_shape E (arg_input_shape A)")
  case (Inl e)
  with assms have "ev = []"
    by (simp add: main_body_def)
  then show ?thesis by simp
next
  case (Inr shp)
  show ?thesis
  proof (cases "length shp < 2")
    case True
    with assms Inr have "percents (events ev) = []"
      by (auto simp add: main_body_def emit_defs)
    then show ?thesis by simp
  next
    case False
    obtain ev1 r1 where l: "load_pytorch_model E (arg_input A) shp = (ev1, r1)"
      by (cases "load_pytorch_model E (arg_input A) shp")
    note la = load_percents [OF l]
    show ?thesis
    proof (cases r1)
      case (Return x)
      obtain tm sd c where x: "x = (tm, sd, c)" by (cases x)
      obtain ev2 r2 where cv: "convert E A shp tm sd c = (ev2, r2)"
        by (cases "convert E A shp tm sd c")
      note cb = convert_percents [OF cv]
      have "percents (events ev) = percents (events ev1) @ percents (events ev2)"
        using assms Inr False l Return x cv
        by (cases r2) (auto simp add: main_body_def emit_defs)
      with la cb show ?thesis by blast
    next
      case (Raise e)
      with assms Inr False l have "percents (events ev) = percents (events ev1) @ []"
        by (auto simp add: main_body_def emit_defs)
      with la show ?thesis by blast
    next
      case (Exit n)
      with assms Inr False l have "percents (events ev) = percents (events ev1) @ []"
        by (auto simp add: main_body_def emit_defs)
      with la show ?thesis by blast
    qed
  qed
qed

lemma main_body_completed:
  assumes "main_body E A = (ev, r)"
  shows "(\<exists>pre c. r = Return () \<and> events ev = pre @ [c] \<and> is_completed c \<and> \<not> list_ex is_completed pre
             \<and> percents pre \<noteq> [] \<and> last (percents pre) = 1)
         \<or> \<not> list_ex is_completed (events ev)"
proof (cases "parse_shape E (arg_input_shape A)")
  case (Inl e)
  with assms have "ev = []"
    by (simp add: main_body_def)
  then show ?thesis by simp
next
  case (Inr shp)
  show ?thesis
  proof (cases "length shp < 2")
    case True
    with assms Inr have "\<not> list_ex is_completed (events ev)"
      by (auto simp add: main_body_def emit_defs)
    then show ?thesis by simp
  next
    case False
    obtain ev1 r1 where l: "load_pytorch_model E (arg_input A) shp = (ev1, r1)"
      by (cases "load_pytorch_model E (arg_input A) shp")
    note lq = load_quiet [OF l]
    show ?thesis
    proof (cases r1)
      case (Return x)
      obtain tm sd c where x: "x = (tm, sd, c)" by (cases x)
      obtain ev2 r2 where cv: "convert E A shp tm sd c = (ev2, r2)"
        by (cases "convert E A shp tm sd c")
      note cq = convert_ends [OF cv] and cb = convert_percents [OF cv]
      show ?thesis
      proof (cases r2)
        case (Return md)
        let ?pre = "events (log_event ''info'' (''Input shape: '' @ repr_tuple shp) @ ev1 @ ev2)"
        have e: "events ev = ?pre @ [Completed (arg_output A) (target_str (arg_format A)) md]"
          using assms Inr False l \<open>r1 = Return x\<close> x cv Return
          by (auto simp add: main_body_def emit_defs)
        have q: "\<not> list_ex is_completed ?pre"
          using lq cq by (simp add: emit_defs)
        have "percents ?pre = percents (events ev1) @ [5 / 10, 6 / 10, 8 / 10, 9 / 10, 1]"
          using cb Return by (simp add: emit_defs)
        then have "percents ?pre \<noteq> [] \<and> last (percents ?pre) = 1"
          by simp
        moreover have "r = Return ()"
          using assms Inr False l \<open>r1 = Return x\<close> x cv Return
          by (auto simp add: main_body_def)
        ultimately show ?thesis using e q by auto
      next
        case (Raise e)
        then have "\<not> list_ex is_completed (events ev)"
          using assms Inr False l \<open>r1 = Return x\<close> x cv lq cq
          by (auto simp add: main_body_def emit_defs)
        then show ?thesis by simp
      next
        case (Exit n)
        then have "\<not> list_ex is_completed (events ev)"
          using assms Inr False l \<open>r1 = Return x\<close> x cv lq cq
          by (auto simp add: main_body_def emit_defs)
        then show ?thesis by simp
      qed
    next
      case (Raise e)
      with assms Inr False l lq have "\<not> list_ex is_completed (events ev)"
        by (auto simp add: main_body_def emit_defs)
      then show ?thesis by simp
    next
      case (Exit n)
      with assms Inr False l lq have "\<not> list_ex is_completed (events ev)"
        by (auto simp add: main_body_def emit_defs)
      then show ?thesis by simp
    qed
  qed
qed

lemma main_events:
  "main_body E A = (ev, r) \<Longrightarrow>
   percents (events (fst (main E A))) = percents (events ev)
   \<and> filter is_completed (events (fst (main E A))) = filter is_completed (events ev)
   \<and> (\<exists>tl. events (fst (main E A)) = events ev @ tl \<and> \<not> list_ex is_completed tl
            \<and> (tl = [] \<or> (\<exists>e. r = Raise e)))"
  by (cases r) (simp_all add: main_def emit_defs)

lemma only_completed_is_last:
  assumes "\<not> list_ex P xs" and "xs @ [y] = pre @ c # post" and "P c"
  shows "pre = xs \<and> post = []"
  using assms
proof (induction xs arbitrary: pre)
  case Nil
  then show ?case by (cases pre) auto
next
  case (Cons x xs)
  then show ?case by (cases pre) auto
qed

text \<open>
  C6. In every run, whatever the libraries answer, the percent values of the progress
  events, in the order printed, never decrease and lie between 0 and 1; and wherever a
  completed event stands in the run, a progress event was printed before it and the last
  one printed before it has percent 1.
\<close>

theorem progress_monotone:
  "sorted (percents (events (fst (main E A))))
   \<and> (\<forall>p \<in> set (percents (events (fst (main E A)))). 0 \<le> p \<and> p \<le> 1)
   \<and> (\<forall>pre c post. events (fst (main E A)) = pre @ c # post \<and> is_completed c \<longrightarrow>
          percents pre \<noteq> [] \<and> last (percents pre) = 1)"
proof -
  obtain ev r where b: "main_body E A = (ev, r)"
    by (cases "main_body E A")
  from main_events [OF b] obtain tl where
    p: "percents (events (fst (main E A))) = percents (events ev)" and
    t: "events (fst (main E A)) = events ev @ tl" "\<not> list_ex is_completed tl"
       "tl = [] \<or> (\<exists>e. r = Raise e)"
    by blast
  from main_body_percents [OF b] obtain x y where
    xy: "percents (events ev) = x @ y"
        "x \<in> {[], [1 / 10], [1 / 10, 2 / 10, 3 / 10], [1 / 10, 2 / 10, 3 / 10, 4 / 10]}"
        "y \<in> {[], [5 / 10], [5 / 10, 6 / 10], [5 / 10, 6 / 10, 8 / 10],
               [5 / 10, 6 / 10, 8 / 10, 9 / 10], [5 / 10, 6 / 10, 8 / 10, 9 / 10, 1]}"
    by blast
  have s: "sorted (x @ y)"
    using xy(2,3) by auto
  have r: "\<forall>p \<in> set (x @ y). 0 \<le> p \<and> p \<le> 1"
    using xy(2,3) by auto
  have c: "\<forall>pre c post. events (fst (main E A)) = pre @ c # post \<and> is_completed c \<longrightarrow>
          percents pre \<noteq> [] \<and> last (percents pre) = 1"
  proof (intro allI impI)
    fix pre c post
    assume h: "events (fst (main E A)) = pre @ c # post \<and> is_completed c"
    from main_body_completed [OF b]
    show "percents pre \<noteq> [] \<and> last (percents pre) = 1"
    proof
      assume "\<exists>pre c. r = Return () \<and> events ev = pre @ [c] \<and> is_completed c
                \<and> \<not> list_ex is_completed pre \<and> percents pre \<noteq> [] \<and> last (percents pre) = 1"
      then obtain xs d where d: "r = Return ()" "events ev = xs @ [d]"
          "\<not> list_ex is_completed xs" "percents xs \<noteq> []" "last (percents xs) = 1"
        by blast
      from d(1) t(3) have "tl = []" by auto
      with t(1) d(2) h have "xs @ [d] = pre @ c # post" by simp
      from only_completed_is_last [OF d(3) this] h have "pre = xs" by simp
      with d(4,5) show ?thesis by simp
    next
      assume "\<not> list_ex is_completed (events ev)"
      with t(2) have "\<not> list_ex is_completed (events ev @ tl)"
        by (auto simp add: list_ex_iff)
      then have n: "\<forall>x \<in> set (events ev @ tl). \<not> is_completed x"
        by (simp add: list_ex_iff)
      have "c \<in> set (pre @ c # post)"
        by simp
      with t(1) h have "c \<in> set (events ev @ tl)"
        by simp
      with n h show ?thesis
        by blast
    qed
  qed
  from s r c show ?thesis
    by (simp only: p xy(1)) 
qed

theorem progress_monotone_witness:
  "sorted (percents (events (fst (main (sample_world cnn_checkpoint)
                                   (sample_args MLX ''1,3,224,224'')))))
   \<and> percents (events (fst (main (sample_world cnn_checkpoint)
                                  (sample_args MLX ''1,3,224,224''))))
       = [1 / 10, 2 / 10, 3 / 10, 5 / 10, 6 / 10, 8 / 10, 9 / 10, 1]"
proof -
  have "percents (events (fst (main (sample_world cnn_checkpoint)
                                  (sample_args MLX ''1,3,224,224''))))
       = [1 / 10, 2 / 10, 3 / 10, 5 / 10, 6 / 10, 8 / 10, 9 / 10, 1]"
    by (simp add: main_def main_body_def convert_def load_pytorch_model_def classify_def
        convert_to_mlx_def extract_state_dict_def sample_world_def sample_args_def
        cnn_checkpoint_def parse_shape_def decimal_int_def to_float_def contiguous_def
        emit_defs)
  then show ?thesis
    using progress_monotone [of "sample_world cnn_checkpoint" "sample_args MLX ''1,3,224,224''"]
    by blast
qed

section \<open>Classification of the checkpoint\<close>

lemma classify_rules:
  "map_of kvs ''model'' = Some m \<Longrightarrow>
     fst (classify (PDict kvs)) = m \<and> fst (snd (classify (PDict kvs))) = PNone"
  "map_of kvs ''model'' = None \<Longrightarrow> map_of kvs ''state_dict'' = Some sd \<Longrightarrow>
     fst (classify (PDict kvs)) = PNone \<and> fst (snd (classify (PDict kvs))) = sd"
  "map_of kvs ''model'' = None \<Longrightarrow> map_of kvs ''state_dict'' = None \<Longrightarrow>
   map_of kvs ''model_state_dict'' = Some sd \<Longrightarrow>
     fst (classify (PDict kvs)) = PNone \<and> fst (snd (classify (PDict kvs))) = sd"
  "map_of kvs ''model'' = None \<Longrightarrow> map_of kvs ''state_dict'' = None \<Longrightarrow>
   map_of kvs ''model_state_dict'' = None \<Longrightarrow> list_all is_tensor (map snd kvs) \<Longrightarrow>
     fst (classify (PDict kvs)) = PNone \<and> fst (snd (classify (PDict kvs))) = PDict kvs"
  "map_of kvs ''model'' = None \<Longrightarrow> map_of kvs ''state_dict'' = None \<Longrightarrow>
   map_of kvs ''model_state_dict'' = None \<Longrightarrow> \<not> list_all is_tensor (map snd kvs) \<Longrightarrow>
     fst (classify (PDict kvs)) = PDict kvs \<and> fst (snd (classify (PDict kvs))) = PNone"
  by (simp_all add: classify_def)

lemma classify_other:
  "(\<And>kvs. c \<noteq> PDict kvs) \<Longrightarrow> fst (classify c) = c \<and> fst (snd (classify c)) = PNone"
  by (cases c) (auto simp add: classify_def)

lemma load_classified:
  assumes "import_torch E = None" and "torch_load E path False = Inr c"
  shows "load_pytorch_model E path shp =
           (let pre = log_event ''info'' (''Loading PyTorch model from '' @ path)
                      @ progress (1 / 10) ''Loading model''
                      @ progress (2 / 10) ''Analyzing checkpoint''
                      @ snd (snd (classify c))
                      @ progress (3 / 10) ''Preparing model'';
                model = fst (classify c); state_dict = fst (snd (classify c))
            in if model = PNone \<and> state_dict \<noteq> PNone
               then (pre @ log_event ''warning'' ''Checkpoint contains only weights (state_dict)''
                         @ log_event ''info'' ''MLX conversion will proceed with raw weights'',
                     Return (None, state_dict, c))
               else if model \<noteq> PNone
               then (pre @ fst (materialize E model shp c), snd (materialize E model shp c))
               else (pre, Raise ''Could not extract model or state_dict from checkpoint''))"
  using assms
  by (simp add: load_pytorch_model_def Let_def split: prod.splits)

lemma classify_found_percents: "percents (events (snd (snd (classify c)))) = []"
  using classify_quiet [of c "fst (classify c)" "fst (snd (classify c))" "snd (snd (classify c))"]
  by simp

text \<open>
  C1. Once \<open>torch.load\<close> has returned the checkpoint, the inspection follows the ordered
  rules, the first that matches deciding. For a mapping with the key \<open>model\<close>, the value
  under it becomes the model and no weights are set, whatever other keys there are;
  otherwise, with the key \<open>state_dict\<close>, or without it and with the key
  \<open>model_state_dict\<close>, the value under it becomes the weights and no model is set;
  otherwise, if every value is a tensor, the mapping itself becomes the weights; otherwise
  the mapping itself becomes the model; a checkpoint that is not a mapping becomes the
  model. What becomes the model (and is not \<open>None\<close>) is handed to the materializer,
  after the progress steps 0.1, 0.2, 0.3. What becomes the weights (and is not \<open>None\<close>)
  is returned as they are after the same steps, with no graph. Whenever no model is set
  the materializer is not entered: the loader's result is the same whatever tracing and
  scripting would answer; when neither a model nor weights are set (the value under the
  key was \<open>None\<close>), it raises.
\<close>

theorem classification_first_match:
  assumes "import_torch E = None" and "torch_load E path False = Inr c"
  shows
    "(\<forall>kvs m. c = PDict kvs \<and> map_of kvs ''model'' = Some m \<longrightarrow>
        fst (classify c) = m \<and> fst (snd (classify c)) = PNone)
     \<and> (\<forall>kvs sd. c = PDict kvs \<and> map_of kvs ''model'' = None
           \<and> (map_of kvs ''state_dict'' = Some sd
                \<or> map_of kvs ''state_dict'' = None \<and> map_of kvs ''model_state_dict'' = Some sd)
           \<longrightarrow> fst (classify c) = PNone \<and> fst (snd (classify c)) = sd)
     \<and> (\<forall>kvs. c = PDict kvs \<and> map_of kvs ''model'' = None \<and> map_of kvs ''state_dict'' = None
           \<and> map_of kvs ''model_state_dict'' = None \<and> list_all is_tensor (map snd kvs)
           \<longrightarrow> fst (classify c) = PNone \<and> fst (snd (classify c)) = c)
     \<and> (\<forall>kvs. c = PDict kvs \<and> map_of kvs ''model'' = None \<and> map_of kvs ''state_dict'' = None
           \<and> map_of kvs ''model_state_dict'' = None \<and> \<not> list_all is_tensor (map snd kvs)
           \<longrightarrow> fst (classify c) = c \<and> fst (snd (classify c)) = PNone)
     \<and> ((\<forall>kvs. c \<noteq> PDict kvs) \<longrightarrow> fst (classify c) = c \<and> fst (snd (classify c)) = PNone)
     \<and> (fst (classify c) \<noteq> PNone \<longrightarrow>
          (\<exists>pre. load_pytorch_model E path shp =
                    (pre @ fst (materialize E (fst (classify c)) shp c),
                     snd (materialize E (fst (classify c)) shp c))
                 \<and> percents (events pre) = [1 / 10, 2 / 10, 3 / 10]))
     \<and> (fst (classify c) = PNone \<and> fst (snd (classify c)) \<noteq> PNone \<longrightarrow>
          (\<exists>pre. load_pytorch_model E path shp = (pre, Return (None, fst (snd (classify c)), c))
                 \<and> percents (events pre) = [1 / 10, 2 / 10, 3 / 10]))
     \<and> (fst (classify c) = PNone \<and> fst (snd (classify c)) = PNone \<longrightarrow>
          (\<exists>pre. load_pytorch_model E path shp
                   = (pre, Raise ''Could not extract model or state_dict from checkpoint'')))
     \<and> (fst (classify c) = PNone \<longrightarrow>
          (\<forall>t s. load_pytorch_model (E\<lparr>jit_trace := t, jit_script := s\<rparr>) path shp
                   = load_pytorch_model E path shp))"
proof -
  have r1: "\<forall>kvs m. c = PDict kvs \<and> map_of kvs ''model'' = Some m \<longrightarrow>
        fst (classify c) = m \<and> fst (snd (classify c)) = PNone"
    using classify_rules(1) by blast
  have r2: "\<forall>kvs sd. c = PDict kvs \<and> map_of kvs ''model'' = None
           \<and> (map_of kvs ''state_dict'' = Some sd
                \<or> map_of kvs ''state_dict'' = None \<and> map_of kvs ''model_state_dict'' = Some sd)
           \<longrightarrow> fst (classify c) = PNone \<and> fst (snd (classify c)) = sd"
    using classify_rules(2,3) by blast
  have r3: "\<forall>kvs. c = PDict kvs \<and> map_of kvs ''model'' = None \<and> map_of kvs ''state_dict'' = None
           \<and> map_of kvs ''model_state_dict'' = None \<and> list_all is_tensor (map snd kvs)
           \<longrightarrow> fst (classify c) = PNone \<and> fst (snd (classify c)) = c"
    using classify_rules(4) by blast
  have r4: "\<forall>kvs. c = PDict kvs \<and> map_of kvs ''model'' = None \<and> map_of kvs ''state_dict'' = None
           \<and> map_of kvs ''model_state_dict'' = None \<and> \<not> list_all is_tensor (map snd kvs)
           \<longrightarrow> fst (classify c) = c \<and> fst (snd (classify c)) = PNone"
    using classify_rules(5) by blast
  have r5: "(\<forall>kvs. c \<noteq> PDict kvs) \<longrightarrow> fst (classify c) = c \<and> fst (snd (classify c)) = PNone"
    using classify_other [of c] by blast
  let ?pre = "log_event ''info'' (''Loading PyTorch model from '' @ path)
                @ progress (1 / 10) ''Loading model''
                @ progress (2 / 10) ''Analyzing checkpoint''
                @ snd (snd (classify c))
                @ progress (3 / 10) ''Preparing model''"
  have pp: "percents (events ?pre) = [1 / 10, 2 / 10, 3 / 10]"
    by (simp add: emit_defs classify_found_percents)
  have pq: "percents (events (?pre
               @ log_event ''warning'' ''Checkpoint contains only weights (state_dict)''
               @ log_event ''info'' ''MLX conversion will proceed with raw weights''))
             = [1 / 10, 2 / 10, 3 / 10]"
    by (simp add: emit_defs classify_found_percents)
  have r6: "fst (classify c) \<noteq> PNone \<longrightarrow>
          (\<exists>pre. load_pytorch_model E path shp =
                    (pre @ fst (materialize E (fst (classify c)) shp c),
                     snd (materialize E (fst (classify c)) shp c))
                 \<and> percents (events pre) = [1 / 10, 2 / 10, 3 / 10])"
  proof
    assume "fst (classify c) \<noteq> PNone"
    then have "load_pytorch_model E path shp =
                 (?pre @ fst (materialize E (fst (classify c)) shp c),
                  snd (materialize E (fst (classify c)) shp c))"
      by (simp add: load_classified [OF assms] Let_def)
    with pp show "\<exists>pre. load_pytorch_model E path shp =
                    (pre @ fst (materialize E (fst (classify c)) shp c),
                     snd (materialize E (fst (classify c)) shp c))
                 \<and> percents (events pre) = [1 / 10, 2 / 10, 3 / 10]"
      by blast
  qed
  have r7: "fst (classify c) = PNone \<and> fst (snd (classify c)) \<noteq> PNone \<longrightarrow>
          (\<exists>pre. load_pytorch_model E path shp = (pre, Return (None, fst (snd (classify c)), c))
                 \<and> percents (events pre) = [1 / 10, 2 / 10, 3 / 10])"
  proof
    assume "fst (classify c) = PNone \<and> fst (snd (classify c)) \<noteq> PNone"
    then have "load_pytorch_model E path shp =
                 (?pre @ log_event ''warning'' ''Checkpoint contains only weights (state_dict)''
                       @ log_event ''info'' ''MLX conversion will proceed with raw weights'',
                  Return (None, fst (snd (classify c)), c))"
      by (simp add: load_classified [OF assms] Let_def)
    with pq show "\<exists>pre. load_pytorch_model E path shp
                          = (pre, Return (None, fst (snd (classify c)), c))
                 \<and> percents (events pre) = [1 / 10, 2 / 10, 3 / 10]"
      by blast
  qed
  have r8: "fst (classify c) = PNone \<longrightarrow>
          (\<forall>t s. load_pytorch_model (E\<lparr>jit_trace := t, jit_script := s\<rparr>) path shp
                   = load_pytorch_model E path shp)"
  proof (intro impI allI)
    fix t s
    assume n: "fst (classify c) = PNone"
    have i: "import_torch (E\<lparr>jit_trace := t, jit_script := s\<rparr>) = None"
      and l: "torch_load (E\<lparr>jit_trace := t, jit_script := s\<rparr>) path False = Inr c"
      using assms by simp_all
    show "load_pytorch_model (E\<lparr>jit_trace := t, jit_script := s\<rparr>) path shp
            = load_pytorch_model E path shp"
      by (simp add: load_classified [OF assms] load_classified [OF i l] n Let_def)
  qed
  have r9: "fst (classify c) = PNone \<and> fst (snd (classify c)) = PNone \<longrightarrow>
          (\<exists>pre. load_pytorch_model E path shp
                   = (pre, Raise ''Could not extract model or state_dict from checkpoint''))"
    by (simp add: load_classified [OF assms] Let_def)
  from r1 r2 r3 r4 r5 r6 r7 r9 r8 show ?thesis
    by blast
qed

theorem classification_first_match_witness:
  "fst (classify model_checkpoint) = net
   \<and> fst (snd (classify model_checkpoint)) = PNone
   \<and> snd (load_pytorch_model (sample_world wrapped_weights) ''model.pt'' [1, 3, 224, 224])
       = Return (None, cnn_checkpoint, wrapped_weights)"
proof -
  have m: "model_checkpoint =
             PDict [(''model'', net), (''state_dict'', cnn_checkpoint),
                    (''epoch'', PObj ''int'' (Some ''no eval'') None)]
           \<and> map_of [(''model'', net), (''state_dict'', cnn_checkpoint),
                      (''epoch'', PObj ''int'' (Some ''no eval'') None)] ''model'' = Some net"
    by (simp add: model_checkpoint_def)
  have i: "import_torch (sample_world model_checkpoint) = None"
    and l: "torch_load (sample_world model_checkpoint) ''model.pt'' False = Inr model_checkpoint"
    by (simp_all add: sample_world_fields)
  from classification_first_match [OF i l, of "[1, 3, 224, 224]"]
  have "\<forall>kvs m. model_checkpoint = PDict kvs \<and> map_of kvs ''model'' = Some m \<longrightarrow>
          fst (classify model_checkpoint) = m \<and> fst (snd (classify model_checkpoint)) = PNone"
    by blast
  with m have a: "fst (classify model_checkpoint) = net
                  \<and> fst (snd (classify model_checkpoint)) = PNone"
    by blast
  have w: "fst (classify wrapped_weights) = PNone"
    "fst (snd (classify wrapped_weights)) = cnn_checkpoint" "cnn_checkpoint \<noteq> PNone"
    by (simp_all add: classify_def wrapped_weights_def cnn_checkpoint_def)
  have i': "import_torch (sample_world wrapped_weights) = None"
    and l': "torch_load (sample_world wrapped_weights) ''model.pt'' False = Inr wrapped_weights"
    by (simp_all add: sample_world_fields)
  from classification_first_match [OF i' l', of "[1, 3, 224, 224]"]
  have "fst (classify wrapped_weights) = PNone \<and> fst (snd (classify wrapped_weights)) \<noteq> PNone
          \<longrightarrow> (\<exists>pre. load_pytorch_model (sample_world wrapped_weights) ''model.pt''
                         [1, 3, 224, 224]
                       = (pre, Return (None, fst (snd (classify wrapped_weights)),
                                       wrapped_weights))
                     \<and> percents (events pre) = [1 / 10, 2 / 10, 3 / 10])"
    by blast
  with w have b: "snd (load_pytorch_model (sample_world wrapped_weights) ''model.pt''
                         [1, 3, 224, 224])
             = Return (None, cnn_checkpoint, wrapped_weights)"
    by auto
  from a b show ?thesis
    by blast
qed

end
